theory Spec2Isabelle
  imports Complex_Main "HOL-Library.AList"
begin

section \<open>Python values, failures and containers\<close>

text \<open>
  The frame analysis of \<^verbatim>\<open>limda\<close> (\<^verbatim>\<open>analyze_frame.py\<close>, and its predecessor
  \<^verbatim>\<open>analize_frame.py\<close>) is embedded function by function. An exception that leaves a
  method is a value \<open>Inl e\<close> of the result; the spec's \<^verbatim>\<open>ConfigError\<close> names such a
  failure of \<^verbatim>\<open>get_neighbor_list\<close> raised before the neighbour search is called.
  Python floats are read as exact reals: rounding is outside this model.
\<close>

datatype error = AssertionError string | TypeError | ValueError | KeyError | IndexError

definition bind_e :: "error + 'a \<Rightarrow> ('a \<Rightarrow> error + 'b) \<Rightarrow> error + 'b" where
  "bind_e m f = (case m of Inl e \<Rightarrow> Inl e | Inr v \<Rightarrow> f v)"

text \<open>A \<^verbatim>\<open>for\<close> loop over a list whose body may raise: the first failure ends it.\<close>

fun foldM_e :: "('a \<Rightarrow> 's \<Rightarrow> error + 's) \<Rightarrow> 'a list \<Rightarrow> 's \<Rightarrow> error + 's" where
  "foldM_e f [] s = Inr s"
| "foldM_e f (x # xs) s = bind_e (f x s) (foldM_e f xs)"

text \<open>A list comprehension whose element expression may raise.\<close>

fun mapM_e :: "('a \<Rightarrow> error + 'b) \<Rightarrow> 'a list \<Rightarrow> error + 'b list" where
  "mapM_e f [] = Inr []"
| "mapM_e f (x # xs) = bind_e (f x) (\<lambda>y. bind_e (mapM_e f xs) (\<lambda>ys. Inr (y # ys)))"

text \<open>
  A \<^verbatim>\<open>dict\<close> is an association list in insertion order; \<open>map_of\<close> reads it,
  \<open>AList.update\<close> is \<^verbatim>\<open>d[k] = v\<close> (overwrite in place, or append a new key), and
  \<^verbatim>\<open>len(d)\<close> counts the distinct keys.
\<close>

definition dict_len :: "('k \<times> 'v) list \<Rightarrow> nat" where
  "dict_len d = length (remdups (map fst d))"

definition dict_get :: "('k \<times> 'v) list \<Rightarrow> 'k \<Rightarrow> error + 'v" where
  "dict_get d k = (case map_of d k of None \<Rightarrow> Inl KeyError | Some v \<Rightarrow> Inr v)"

text \<open>Indexing with a non-negative index (a loop counter or an atom index).\<close>

definition list_get :: "'a list \<Rightarrow> nat \<Rightarrow> error + 'a" where
  "list_get xs i = (if i < length xs then Inr (xs ! i) else Inl IndexError)"

text \<open>
  A Python list index computed from data: a negative index counts from the end, anything
  outside \<open>[-n, n)\<close> raises \<^verbatim>\<open>IndexError\<close>.
\<close>

definition py_index :: "nat \<Rightarrow> int \<Rightarrow> error + nat" where
  "py_index n i =
     (if 0 \<le> i \<and> i < int n then Inr (nat i)
      else if - int n \<le> i \<and> i < 0 then Inr (nat (int n + i))
      else Inl IndexError)"

text \<open>\<^verbatim>\<open>xs[i] += 1\<close> and \<^verbatim>\<open>m[i][j] += 1\<close>.\<close>

definition py_incr :: "nat list \<Rightarrow> int \<Rightarrow> error + nat list" where
  "py_incr xs i = bind_e (py_index (length xs) i) (\<lambda>k. Inr (xs[k := xs ! k + 1]))"

definition py_incr2 :: "nat list list \<Rightarrow> int \<Rightarrow> int \<Rightarrow> error + nat list list" where
  "py_incr2 m i j =
     bind_e (py_index (length m) i) (\<lambda>a.
     bind_e (py_incr (m ! a) j) (\<lambda>row. Inr (m[a := row])))"

text \<open>
  \<^verbatim>\<open>max\<close> over a list whose entries are floats or \<^verbatim>\<open>None\<close>: an empty list raises
  \<^verbatim>\<open>ValueError\<close>, a single entry is returned without any comparison, and comparing with
  \<^verbatim>\<open>None\<close> raises \<^verbatim>\<open>TypeError\<close>. \<^verbatim>\<open>min\<close> is only applied to the cell, a list of
  floats.
\<close>

definition py_max :: "real option list \<Rightarrow> error + real option" where
  "py_max vs =
     (case vs of
        [] \<Rightarrow> Inl ValueError
      | [v] \<Rightarrow> Inr v
      | _ \<Rightarrow> (case those vs of
                None \<Rightarrow> Inl TypeError
              | Some rs \<Rightarrow> Inr (Some (fold max (tl rs) (hd rs)))))"

definition py_min :: "real list \<Rightarrow> error + real" where
  "py_min vs = (case vs of [] \<Rightarrow> Inl ValueError | v # rest \<Rightarrow> Inr (fold min rest v))"

text \<open>\<^verbatim>\<open>str(n)\<close> of a non-negative integer, as an f-string renders a count.\<close>

definition digit_char :: "nat \<Rightarrow> char" where
  "digit_char d = ''0123456789'' ! d"

fun str_nat :: "nat \<Rightarrow> string" where
  "str_nat n = (if n < 10 then [digit_char n] else str_nat (n div 10) @ [digit_char (n mod 10)])"

declare str_nat.simps [simp del]

section \<open>The frame\<close>

text \<open>
  \<^verbatim>\<open>self.atoms\<close> is a data frame: one row per atom, with the columns the analysis reads.
  The type-to-symbol, symbol-to-type and type-to-mass tables are dictionaries, and
  \<^verbatim>\<open>limda_default\<close> is a dictionary of which only the keys \<^verbatim>\<open>"cut_off"\<close> and
  \<^verbatim>\<open>"bond_length"\<close> are read (absent is \<open>None\<close>).
\<close>

record atom =
  atom_type :: int
  atom_x :: real
  atom_y :: real
  atom_z :: real
  atom_vx :: real
  atom_vy :: real
  atom_vz :: real

record limda_defaults =
  default_cut_off :: "real option"
  default_bond_length :: "real list list option"

record frame =
  atoms :: "atom list"
  cell :: "real list"
  atom_symbol_to_type :: "(string \<times> int) list"
  atom_type_to_symbol :: "(int \<times> string) list"
  atom_type_to_mass :: "(int \<times> real) list"
  limda_default :: limda_defaults

text \<open>
  Modelled from the spec: \<^verbatim>\<open>get_total_atoms\<close> and \<^verbatim>\<open>__len__\<close> belong to the frame's base
  class, which is not among the sources; the spec's atom count \<open>N\<close> is the number of rows
  of the atom table.
\<close>

definition get_total_atoms :: "frame \<Rightarrow> nat" where
  "get_total_atoms self = length (atoms self)"

text \<open>
  The neighbour search and the connected-component search are compiled extension modules
  (\<^verbatim>\<open>limda.neighbor\<close>, \<^verbatim>\<open>limda.analyze_mols\<close>) outside the sources. They are
  parameters of the model; \<open>search_args\<close> are the keyword arguments of the first.
\<close>

record search_args =
  arg_atoms_type :: "int list"
  arg_atoms_pos :: "real list list"
  arg_mesh_length :: real
  arg_atom_num :: nat
  arg_bond_length :: "real option list list"
  arg_cell :: "real list"

record cython =
  get_neighbor_list_using_cython :: "search_args \<Rightarrow> error + nat list list"
  get_mols_list_using_cython :: "nat list list \<Rightarrow> nat \<Rightarrow> error + nat list list"

section \<open>\<^verbatim>\<open>get_neighbor_list\<close>\<close>

text \<open>
  Lines 47-51: the mesh length from the threshold matrix and the cell. \<^verbatim>\<open>None + 0.01\<close>
  raises \<^verbatim>\<open>TypeError\<close>; \<^verbatim>\<open>min(self.cell)\<close> is evaluated twice with the same value.
\<close>

definition mesh_length_of :: "real option list list \<Rightarrow> real list \<Rightarrow> error + real" where
  "mesh_length_of bond_length cell_lengths =
     bind_e (mapM_e py_max bond_length) (\<lambda>row_max.
     bind_e (py_max row_max) (\<lambda>m.
       case m of
         None \<Rightarrow> Inl TypeError
       | Some v \<Rightarrow>
           (let mesh_length = v + 0.01 in
            bind_e (py_min cell_lengths) (\<lambda>shortest.
              if mesh_length * 3 > shortest then Inr (shortest / 3) else Inr mesh_length))))"

text \<open>
  Lines 28-45: the threshold matrix. In mode \<^verbatim>\<open>"bond_length"\<close> an unresolved matrix is
  \<^verbatim>\<open>None\<close> and \<^verbatim>\<open>len(None)\<close> raises \<^verbatim>\<open>TypeError\<close>; in mode \<^verbatim>\<open>"cut_off"\<close> the
  cut-off, resolved or \<^verbatim>\<open>None\<close>, is broadcast.
\<close>

definition threshold_matrix ::
  "frame \<Rightarrow> string \<Rightarrow> real option \<Rightarrow> real list list option \<Rightarrow> error + real option list list" where
  "threshold_matrix self mode cut_off bond_length =
     (if \<not> (mode = ''bond_length'' \<or> mode = ''cut_off'') then
        Inl (AssertionError ''Please configure mode'')
      else
        (let atom_type_num = dict_len (atom_symbol_to_type self) in
         if mode = ''bond_length'' then
           (case (case bond_length of
                    None \<Rightarrow> default_bond_length (limda_default self)
                  | Some b \<Rightarrow> Some b) of
              None \<Rightarrow> Inl TypeError
            | Some b \<Rightarrow>
                if length b \<noteq> atom_type_num then
                  Inl (AssertionError ''Incorrect format of bond length'')
                else if \<not> list_all (\<lambda>bond_list. length bond_list = atom_type_num) b then
                  Inl (AssertionError ''Incorrect format of bond length'')
                else Inr (map (map Some) b))
         else
           (let c = (case cut_off of
                       None \<Rightarrow> default_cut_off (limda_default self)
                     | Some v \<Rightarrow> Some v)
            in Inr (replicate atom_type_num (replicate atom_type_num c)))))"

text \<open>Everything \<^verbatim>\<open>get_neighbor_list\<close> does before it calls the neighbour search.\<close>

definition neighbor_search_args ::
  "frame \<Rightarrow> string \<Rightarrow> real option \<Rightarrow> real list list option \<Rightarrow> error + search_args" where
  "neighbor_search_args self mode cut_off bond_length =
     bind_e (threshold_matrix self mode cut_off bond_length) (\<lambda>matrix.
     bind_e (mesh_length_of matrix (cell self)) (\<lambda>mesh_length.
       Inr \<lparr> arg_atoms_type = map atom_type (atoms self),
             arg_atoms_pos = [map atom_x (atoms self), map atom_y (atoms self),
                              map atom_z (atoms self)],
             arg_mesh_length = mesh_length,
             arg_atom_num = get_total_atoms self,
             arg_bond_length = matrix,
             arg_cell = cell self \<rparr>))"

definition get_neighbor_list ::
  "cython \<Rightarrow> frame \<Rightarrow> string \<Rightarrow> real option \<Rightarrow> real list list option \<Rightarrow> error + nat list list" where
  "get_neighbor_list ext self mode cut_off bond_length =
     bind_e (neighbor_search_args self mode cut_off bond_length)
       (get_neighbor_list_using_cython ext)"

definition get_mols_list ::
  "cython \<Rightarrow> frame \<Rightarrow> string \<Rightarrow> real option \<Rightarrow> real list list option \<Rightarrow> error + nat list list" where
  "get_mols_list ext self mode cut_off bond_length =
     bind_e (get_neighbor_list ext self mode cut_off bond_length) (\<lambda>neighbor_list.
       get_mols_list_using_cython ext neighbor_list (get_total_atoms self))"

section \<open>\<^verbatim>\<open>count_mols\<close>, new and old\<close>

text \<open>
  Lines 170-175: the per-type atom counts of one molecule. \<^verbatim>\<open>atom_types\<close> is a numpy
  array read at an atom index; \<^verbatim>\<open>atom_type_count\<close> is a Python list read at
  \<^verbatim>\<open>type - 1\<close>.
\<close>

definition atom_type_count :: "frame \<Rightarrow> nat list \<Rightarrow> error + nat list" where
  "atom_type_count self mol =
     foldM_e (\<lambda>atom_idx counts.
         bind_e (list_get (map atom_type (atoms self)) atom_idx) (\<lambda>t. py_incr counts (t - 1)))
       mol (replicate (dict_len (atom_type_to_symbol self)) 0)"

text \<open>
  Lines 176-178: \<^verbatim>\<open>if key not in d: d[key] = 0\<close> followed by \<^verbatim>\<open>d[key] += 1\<close>.
\<close>

definition tally :: "('k \<times> nat) list \<Rightarrow> 'k \<Rightarrow> ('k \<times> nat) list" where
  "tally d k = AList.update k ((case map_of d k of None \<Rightarrow> 0 | Some c \<Rightarrow> c) + 1) d"

definition mols_count_tmp :: "frame \<Rightarrow> nat list list \<Rightarrow> error + (nat list \<times> nat) list" where
  "mols_count_tmp self mols_list =
     foldM_e (\<lambda>mol d. bind_e (atom_type_count self mol) (\<lambda>counts. Inr (tally d counts)))
       mols_list []"

text \<open>
  Lines 182-186 of \<^verbatim>\<open>analyze_frame.py\<close>: the formula string of one composition. The tuple
  \<open>counts\<close> has one entry per type, so \<open>counts ! atom_type\<close> is in range.
\<close>

definition mol_str :: "frame \<Rightarrow> nat list \<Rightarrow> error + string" where
  "mol_str self counts =
     foldM_e (\<lambda>atom_type s.
         if counts ! atom_type = 0 then Inr s
         else bind_e (dict_get (atom_type_to_symbol self) (int atom_type + 1)) (\<lambda>symbol.
                Inr (s @ symbol @ str_nat (counts ! atom_type))))
       [0..<dict_len (atom_type_to_symbol self)] ''''"

text \<open>Lines 87-94 of \<^verbatim>\<open>analize_frame.py\<close>: the old rendering, with a separating space.\<close>

definition AnalizeFrame_mol_str :: "frame \<Rightarrow> nat list \<Rightarrow> error + string" where
  "AnalizeFrame_mol_str self counts =
     foldM_e (\<lambda>atom_type s.
         if counts ! atom_type = 0 then Inr s
         else bind_e (dict_get (atom_type_to_symbol self) (int atom_type + 1)) (\<lambda>symbol.
                if s = '''' then Inr (symbol @ str_nat (counts ! atom_type))
                else Inr (s @ '' '' @ symbol @ str_nat (counts ! atom_type))))
       [0..<dict_len (atom_type_to_symbol self)] ''''"

text \<open>The second loop of both versions: \<^verbatim>\<open>mols_count[mol_str] = count\<close> per composition.\<close>

definition mols_count ::
  "(nat list \<Rightarrow> error + string) \<Rightarrow> (nat list \<times> nat) list \<Rightarrow> error + (string \<times> nat) list" where
  "mols_count str items =
     foldM_e (\<lambda>(counts, count) d. bind_e (str counts) (\<lambda>s. Inr (AList.update s count d)))
       items []"

text \<open>The body of \<^verbatim>\<open>count_mols\<close> once \<^verbatim>\<open>mols_list\<close> is known, and the method itself.\<close>

definition count_mols_of :: "frame \<Rightarrow> nat list list \<Rightarrow> error + (string \<times> nat) list" where
  "count_mols_of self mols_list =
     bind_e (mols_count_tmp self mols_list) (mols_count (mol_str self))"

definition count_mols ::
  "cython \<Rightarrow> frame \<Rightarrow> string \<Rightarrow> real option \<Rightarrow> real list list option
     \<Rightarrow> error + (string \<times> nat) list" where
  "count_mols ext self mode cut_off bond_length =
     bind_e (get_mols_list ext self mode cut_off bond_length) (count_mols_of self)"

text \<open>
  The old class \<^verbatim>\<open>AnalizeFrame\<close>: its \<^verbatim>\<open>get_neighbor_list\<close> and \<^verbatim>\<open>get_mols_list\<close>
  are, statement by statement, those of the new class, so \<open>get_mols_list\<close> stands for both.
\<close>

definition AnalizeFrame_count_mols_of ::
  "frame \<Rightarrow> nat list list \<Rightarrow> error + (string \<times> nat) list" where
  "AnalizeFrame_count_mols_of self mols_list =
     bind_e (mols_count_tmp self mols_list) (mols_count (AnalizeFrame_mol_str self))"

definition AnalizeFrame_count_mols ::
  "cython \<Rightarrow> frame \<Rightarrow> string \<Rightarrow> real option \<Rightarrow> real list list option
     \<Rightarrow> error + (string \<times> nat) list" where
  "AnalizeFrame_count_mols ext self mode cut_off bond_length =
     bind_e (get_mols_list ext self mode cut_off bond_length) (AnalizeFrame_count_mols_of self)"

section \<open>\<^verbatim>\<open>count_bonds\<close>\<close>

text \<open>Lines 215-225: the \<open>T \<times> T\<close> counter, filled from the neighbour list.\<close>

definition count_bonds_list :: "frame \<Rightarrow> nat list list \<Rightarrow> error + nat list list" where
  "count_bonds_list self neighbor_list =
     (let atom_types = map atom_type (atoms self);
          atom_type_num = dict_len (atom_symbol_to_type self)
      in foldM_e (\<lambda>atom_i_idx counts.
           bind_e (list_get atom_types atom_i_idx) (\<lambda>atom_i_type.
           bind_e (list_get neighbor_list atom_i_idx) (\<lambda>neighbors.
             foldM_e (\<lambda>atom_j_idx counts.
                 if atom_i_idx < atom_j_idx then
                   bind_e (list_get atom_types atom_j_idx) (\<lambda>atom_j_type.
                     py_incr2 counts (atom_i_type - 1) (atom_j_type - 1))
                 else Inr counts)
               neighbors counts)))
         [0..<get_total_atoms self]
         (replicate atom_type_num (replicate atom_type_num 0)))"

text \<open>Lines 226-232: one key per type pair \<open>i \<le> j\<close>, read from row \<open>i\<close>, column \<open>j\<close>.\<close>

definition count_bonds_dict :: "frame \<Rightarrow> nat list list \<Rightarrow> error + (string \<times> nat) list" where
  "count_bonds_dict self counts =
     (let atom_type_num = dict_len (atom_symbol_to_type self)
      in foldM_e (\<lambda>atom_i_type d.
           foldM_e (\<lambda>atom_j_type d.
               bind_e (dict_get (atom_type_to_symbol self) (int atom_i_type)) (\<lambda>symbol_i.
               bind_e (dict_get (atom_type_to_symbol self) (int atom_j_type)) (\<lambda>symbol_j.
                 Inr (AList.update (symbol_i @ ''-'' @ symbol_j)
                        (counts ! (atom_i_type - 1) ! (atom_j_type - 1)) d))))
             [atom_i_type..<atom_type_num + 1] d)
         [1..<atom_type_num + 1] [])"

definition count_bonds_of :: "frame \<Rightarrow> nat list list \<Rightarrow> error + (string \<times> nat) list" where
  "count_bonds_of self neighbor_list =
     bind_e (count_bonds_list self neighbor_list) (count_bonds_dict self)"

definition count_bonds ::
  "cython \<Rightarrow> frame \<Rightarrow> string \<Rightarrow> real option \<Rightarrow> real list list option
     \<Rightarrow> error + (string \<times> nat) list" where
  "count_bonds ext self mode cut_off bond_length =
     bind_e (get_neighbor_list ext self mode cut_off bond_length) (count_bonds_of self)"

section \<open>\<^verbatim>\<open>get_edge_index\<close>\<close>

text \<open>Lines 245-251: the two rows of \<^verbatim>\<open>edge_index\<close> are kept as a pair while they grow.\<close>

definition edge_index_of :: "nat \<Rightarrow> nat list list \<Rightarrow> error + nat list list" where
  "edge_index_of total_atoms neighbor_list =
     bind_e
       (foldM_e (\<lambda>atom_idx edge_index.
            bind_e (list_get neighbor_list atom_idx) (\<lambda>neighbors.
              Inr (fold (\<lambda>neighbor_atom_idx (sources, destinations).
                      if atom_idx < neighbor_atom_idx
                      then (sources @ [atom_idx], destinations @ [neighbor_atom_idx])
                      else (sources, destinations))
                    neighbors edge_index)))
          [0..<total_atoms] ([], []))
       (\<lambda>(sources, destinations). Inr [sources, destinations])"

definition get_edge_index :: "cython \<Rightarrow> frame \<Rightarrow> real \<Rightarrow> error + nat list list" where
  "get_edge_index ext self cut_off =
     bind_e (get_neighbor_list ext self ''cut_off'' (Some cut_off) None)
       (edge_index_of (get_total_atoms self))"

section \<open>\<^verbatim>\<open>get_sum_of_momentums\<close>\<close>

text \<open>
  Lines 262-264: the masses by type (a missing type raises \<^verbatim>\<open>KeyError\<close>), the
  \<open>3 \<times> N\<close> array of velocity columns times the masses, and its row sums.
\<close>

definition get_sum_of_momentums :: "frame \<Rightarrow> error + real list" where
  "get_sum_of_momentums self =
     bind_e (mapM_e (dict_get (atom_type_to_mass self)) (map atom_type (atoms self))) (\<lambda>mass.
       (let momentums =
              map (\<lambda>column. map2 (*) column mass)
                [map atom_vx (atoms self), map atom_vy (atoms self), map atom_vz (atoms self)]
        in Inr (map sum_list momentums)))"

section \<open>The neighbour list as the spec describes it\<close>

text \<open>
  The spec's \<^verbatim>\<open>NeighborList\<close> over \<open>n\<close> atoms: one row per atom, each row a set (no
  atom twice) of atom indices below \<open>n\<close>, without the atom itself, and symmetric:
  whenever \<open>j\<close> is in row \<open>i\<close>, \<open>i\<close> is in row \<open>j\<close>.
\<close>

definition symmetric_neighbor_list :: "nat \<Rightarrow> nat list list \<Rightarrow> bool" where
  "symmetric_neighbor_list n neighbor_list \<longleftrightarrow>
     length neighbor_list = n \<and>
     (\<forall>i \<in> set [0..<n].
        distinct (neighbor_list ! i) \<and> i \<notin> set (neighbor_list ! i) \<and>
        (\<forall>j \<in> set (neighbor_list ! i). j < n \<and> i \<in> set (neighbor_list ! j)))"

text \<open>
  The bonded pairs \<open>(i, j)\<close> with \<open>i < j\<close> met when the rows \<open>idxs\<close> are read in order,
  each row from left to right: the pairs both \<^verbatim>\<open>count_bonds\<close> and \<^verbatim>\<open>get_edge_index\<close>
  visit.
\<close>

definition bonded_pairs :: "nat list list \<Rightarrow> nat list \<Rightarrow> (nat \<times> nat) list" where
  "bonded_pairs neighbor_list idxs =
     concat (map (\<lambda>i. map (Pair i) (filter ((<) i) (neighbor_list ! i))) idxs)"

section \<open>Compositions and formula strings as the spec describes them\<close>

text \<open>
  The spec's formula counting, in its own words: per component, the number of atoms of each
  type \<open>1..T\<close>; the formula string, in ascending type order, zero counts omitted, each
  part the symbol followed by the count. A frame and a molecule list are well formed when
  every molecule holds atom indices of the frame, every such atom has a type in \<open>1..T\<close>,
  and every type \<open>1..T\<close> has a symbol.
\<close>

definition type_counts :: "frame \<Rightarrow> nat list \<Rightarrow> nat list" where
  "type_counts self mol =
     map (\<lambda>t. count_list (map (\<lambda>a. atom_type (atoms self ! a)) mol) (int t + 1))
       [0..<dict_len (atom_type_to_symbol self)]"

definition formula_string :: "frame \<Rightarrow> nat list \<Rightarrow> string" where
  "formula_string self counts =
     concat (map (\<lambda>t. if counts ! t = 0 then []
                       else the (map_of (atom_type_to_symbol self) (int t + 1))
                              @ str_nat (counts ! t))
               [0..<dict_len (atom_type_to_symbol self)])"

definition well_formed_molecules :: "frame \<Rightarrow> nat list list \<Rightarrow> bool" where
  "well_formed_molecules self mols_list \<longleftrightarrow>
     (\<forall>mol \<in> set mols_list. \<forall>a \<in> set mol.
        a < length (atoms self) \<and> 1 \<le> atom_type (atoms self ! a)
        \<and> atom_type (atoms self ! a) \<le> int (dict_len (atom_type_to_symbol self)))
     \<and> (\<forall>t \<in> set [0..<dict_len (atom_type_to_symbol self)].
          map_of (atom_type_to_symbol self) (int t + 1) \<noteq> None)"

section \<open>Sample frames\<close>

text \<open>
  Small frames for the worked examples: atoms of the given types at rest positions with
  velocity \<open>(1, 2, 3)\<close>, the types \<open>1 = O\<close> and \<open>2 = H\<close>, a cubic cell of side 10 and no
  stored defaults; and an extension module that answers every call with a fixed
  neighbour list and a fixed molecule list.
\<close>

definition sample_atom :: "int \<Rightarrow> atom" where
  "sample_atom t =
     \<lparr> atom_type = t, atom_x = 0, atom_y = 0, atom_z = 0,
       atom_vx = 1, atom_vy = 2, atom_vz = 3 \<rparr>"

definition sample_frame :: "int list \<Rightarrow> frame" where
  "sample_frame types =
     \<lparr> atoms = map sample_atom types,
       cell = [10, 10, 10],
       atom_symbol_to_type = [(''O'', 1), (''H'', 2)],
       atom_type_to_symbol = [(1, ''O''), (2, ''H'')],
       atom_type_to_mass = [(1, 16), (2, 1)],
       limda_default = \<lparr> default_cut_off = None, default_bond_length = None \<rparr> \<rparr>"

text \<open>
  Twelve atoms, eleven of type 1 and one of type 2, with the symbols \<open>X\<close> and \<open>X1\<close>.
\<close>

definition collision_frame :: frame where
  "collision_frame =
     (sample_frame [1, 1, 1, 1, 1, 1, 1, 1, 1, 1, 1, 2])
       \<lparr> atom_symbol_to_type := [(''X'', 1), (''X1'', 2)],
         atom_type_to_symbol := [(1, ''X''), (2, ''X1'')] \<rparr>"

definition fixed_search :: "nat list list \<Rightarrow> nat list list \<Rightarrow> cython" where
  "fixed_search neighbor_list mols_list =
     \<lparr> get_neighbor_list_using_cython = (\<lambda>args. Inr neighbor_list),
       get_mols_list_using_cython = (\<lambda>neighbors total. Inr mols_list) \<rparr>"

section \<open>Basic facts about the failure monad\<close>

lemma bind_e_simps [simp]:
  "bind_e (Inl e) f = Inl e"
  "bind_e (Inr v) f = f v"
  by (simp_all add: bind_e_def)

lemma bind_e_eq_Inr: "bind_e m f = Inr r \<longleftrightarrow> (\<exists>v. m = Inr v \<and> f v = Inr r)"
  by (cases m) simp_all

section \<open>Unresolvable thresholds\<close>

lemma py_max_replicate_None:
  "py_max (replicate n None) =
     (if n = 0 then Inl ValueError else if n = 1 then Inr None else Inl TypeError)"
proof (cases n)
  case 0
  then show ?thesis by (simp add: py_max_def)
next
  case (Suc k)
  then show ?thesis by (cases k) (simp_all add: py_max_def)
qed

lemma mapM_e_replicate_Inl:
  "f x = Inl e \<Longrightarrow> 0 < n \<Longrightarrow> mapM_e f (replicate n x) = Inl e"
  by (cases n) simp_all

lemma mesh_length_of_None:
  "mesh_length_of (replicate n (replicate n None)) c =
     (if n = 0 then Inl ValueError else Inl TypeError)"
proof -
  consider "n = 0" | "n = 1" | "2 \<le> n" by linarith
  then show ?thesis
  proof cases
    case 1
    then show ?thesis by (simp add: mesh_length_of_def py_max_def)
  next
    case 2
    then show ?thesis by (simp add: mesh_length_of_def py_max_def)
  next
    case 3
    then have "py_max (replicate n None) = Inl TypeError"
      by (simp add: py_max_replicate_None)
    then have "mapM_e py_max (replicate n (replicate n None)) = Inl TypeError"
      using 3 by (intro mapM_e_replicate_Inl) simp_all
    then show ?thesis using 3 by (simp add: mesh_length_of_def)
  qed
qed

text \<open>
  C4. When no threshold source can be resolved, \<^verbatim>\<open>get_neighbor_list\<close> fails before the
  neighbour search is called, whatever the search would do: in mode \<^verbatim>\<open>"cut_off"\<close> with
  no cut-off passed and none among the defaults, and in mode \<^verbatim>\<open>"bond_length"\<close> with no
  matrix passed and none among the defaults. The failure is the \<^verbatim>\<open>TypeError\<close> of
  \<^verbatim>\<open>len(None)\<close>, of \<^verbatim>\<open>max\<close> over \<^verbatim>\<open>None\<close> entries or of \<^verbatim>\<open>None + 0.01\<close>, and
  the \<^verbatim>\<open>ValueError\<close> of \<^verbatim>\<open>max([])\<close> when there is no atom type at all.
\<close>

theorem get_neighbor_list_unresolved:
  assumes "(mode = ''cut_off'' \<and> cut_off = None \<and> default_cut_off (limda_default self) = None)
         \<or> (mode = ''bond_length'' \<and> bond_length = None
              \<and> default_bond_length (limda_default self) = None)"
  shows "get_neighbor_list ext self mode cut_off bond_length =
           Inl (if mode = ''cut_off'' \<and> dict_len (atom_symbol_to_type self) = 0
                then ValueError else TypeError)"
proof -
  let ?n = "dict_len (atom_symbol_to_type self)"
  from assms show ?thesis
  proof
    assume c: "mode = ''cut_off'' \<and> cut_off = None \<and> default_cut_off (limda_default self) = None"
    then have "threshold_matrix self mode cut_off bond_length =
                 Inr (replicate ?n (replicate ?n None))"
      by (simp add: threshold_matrix_def Let_def)
    with c show ?thesis
      by (simp add: get_neighbor_list_def neighbor_search_args_def mesh_length_of_None)
  next
    assume b: "mode = ''bond_length'' \<and> bond_length = None
                \<and> default_bond_length (limda_default self) = None"
    then have "threshold_matrix self mode cut_off bond_length = Inl TypeError"
      by (simp add: threshold_matrix_def Let_def)
    with b show ?thesis
      by (simp add: get_neighbor_list_def neighbor_search_args_def)
  qed
qed

theorem get_neighbor_list_unresolved_witness:
  "default_cut_off (limda_default (sample_frame [1, 2, 2])) = None
   \<and> get_neighbor_list (fixed_search [] []) (sample_frame [1, 2, 2]) ''cut_off'' None None
       = Inl TypeError"
  using get_neighbor_list_unresolved
          [where mode = "''cut_off''" and cut_off = None and bond_length = None
             and self = "sample_frame [1, 2, 2]" and ext = "fixed_search [] []"]
  by (simp add: sample_frame_def dict_len_def)

section \<open>Validation of the threshold matrix\<close>

lemma threshold_matrix_bad_shape:
  assumes "(case bond_length of None \<Rightarrow> default_bond_length (limda_default self)
            | Some b \<Rightarrow> Some b) = Some m"
    and "length m \<noteq> dict_len (atom_symbol_to_type self)
         \<or> (\<exists>bond_list \<in> set m. length bond_list \<noteq> dict_len (atom_symbol_to_type self))"
  shows "threshold_matrix self ''bond_length'' cut_off bond_length =
           Inl (AssertionError ''Incorrect format of bond length'')"
  using assms by (auto simp: threshold_matrix_def Let_def list_all_iff)

text \<open>
  C3, as the code has it. In mode \<^verbatim>\<open>"bond_length"\<close>, when the matrix that was passed (or,
  failing that, the stored default) does not have exactly \<open>T\<close> rows of exactly \<open>T\<close>
  entries, \<open>T\<close> the number of atom types, \<^verbatim>\<open>get_neighbor_list\<close> fails with the
  assertion \<^verbatim>\<open>"Incorrect format of bond length"\<close>, for every neighbour search: the
  search is never consulted and no result is produced. The sign of the entries is not
  examined.
\<close>

theorem get_neighbor_list_bad_shape:
  assumes "(case bond_length of None \<Rightarrow> default_bond_length (limda_default self)
            | Some b \<Rightarrow> Some b) = Some m"
    and "length m \<noteq> dict_len (atom_symbol_to_type self)
         \<or> (\<exists>bond_list \<in> set m. length bond_list \<noteq> dict_len (atom_symbol_to_type self))"
  shows "get_neighbor_list ext self ''bond_length'' cut_off bond_length =
           Inl (AssertionError ''Incorrect format of bond length'')"
  by (simp add: get_neighbor_list_def neighbor_search_args_def
        threshold_matrix_bad_shape [OF assms])

theorem get_neighbor_list_bad_shape_witness:
  "get_neighbor_list (fixed_search [] []) (sample_frame [1, 2, 2]) ''bond_length'' None
       (Some [[1, 2], [2]])
     = Inl (AssertionError ''Incorrect format of bond length'')"
  using get_neighbor_list_bad_shape
          [where bond_length = "Some [[1, 2], [2]]" and m = "[[1, 2], [2]]"
             and self = "sample_frame [1, 2, 2]" and ext = "fixed_search [] []"
             and cut_off = None]
  by (simp add: sample_frame_def dict_len_def)

text \<open>
  A \<open>2 \<times> 2\<close> matrix of entries \<open>-1\<close> passes the validation: the neighbour search is called,
  with mesh length \<open>-0.99\<close>, and its answer is returned.
\<close>

theorem get_neighbor_list_negative_accepted:
  "neighbor_search_args (sample_frame [1, 2, 2]) ''bond_length'' None
       (Some [[-1, -1], [-1, -1]])
     = Inr \<lparr> arg_atoms_type = [1, 2, 2],
             arg_atoms_pos = [[0, 0, 0], [0, 0, 0], [0, 0, 0]],
             arg_mesh_length = - 0.99,
             arg_atom_num = 3,
             arg_bond_length = [[Some (-1), Some (-1)], [Some (-1), Some (-1)]],
             arg_cell = [10, 10, 10] \<rparr>
   \<and> get_neighbor_list (fixed_search [[1], [0], []] []) (sample_frame [1, 2, 2])
         ''bond_length'' None (Some [[-1, -1], [-1, -1]])
     = Inr [[1], [0], []]"
  by (simp add: get_neighbor_list_def neighbor_search_args_def threshold_matrix_def
        mesh_length_of_def py_max_def py_min_def sample_frame_def sample_atom_def
        fixed_search_def dict_len_def get_total_atoms_def)

section \<open>The mesh length\<close>

lemma those_map_Some: "those (map Some xs) = Some xs"
  by (induction xs) simp_all

lemma py_max_Some:
  "py_max (map Some rs) = (if rs = [] then Inl ValueError else Inr (Some (Max (set rs))))"
proof (cases rs)
  case Nil
  then show ?thesis by (simp add: py_max_def)
next
  case (Cons r rest)
  show ?thesis
  proof (cases rest)
    case Nil
    with Cons show ?thesis by (simp add: py_max_def)
  next
    case (Cons r' rest')
    have "py_max (map Some rs) = Inr (Some (fold max rest r))"
      using those_map_Some [of rs] \<open>rs = r # rest\<close> Cons by (simp add: py_max_def)
    also have "fold max rest r = Max (set rs)"
      using Max.set_eq_fold [of r rest] \<open>rs = r # rest\<close> by simp
    finally show ?thesis using \<open>rs = r # rest\<close> by simp
  qed
qed

lemma py_min_Min:
  "py_min vs = (if vs = [] then Inl ValueError else Inr (Min (set vs)))"
proof (cases vs)
  case Nil
  then show ?thesis by (simp add: py_min_def)
next
  case (Cons v rest)
  then show ?thesis using Min.set_eq_fold [of v rest] by (simp add: py_min_def)
qed

lemma mapM_e_py_max_Some:
  "mapM_e py_max (map (map Some) m) =
     (if [] \<in> set m then Inl ValueError else Inr (map Some (map (\<lambda>r. Max (set r)) m)))"
  by (induction m) (auto simp: py_max_Some)

lemma Max_row_maxima:
  fixes m :: "real list list"
  assumes "m \<noteq> []" "[] \<notin> set m"
  shows "Max (set (map (\<lambda>r. Max (set r)) m)) = Max (set (concat m))"
  using assms
proof (induction m)
  case Nil
  then show ?case by simp
next
  case (Cons r m)
  show ?case
  proof (cases "m = []")
    case True
    then show ?thesis by simp
  next
    case False
    from Cons.prems have ne: "r \<noteq> []" and nm: "[] \<notin> set m" by auto
    from False nm obtain r' where "r' \<in> set m" "r' \<noteq> []"
      by (cases m) auto
    then have cne: "set (concat m) \<noteq> {}" by auto
    from Cons.IH False nm
    have ih: "Max (set (map (\<lambda>r. Max (set r)) m)) = Max (set (concat m))" by simp
    have "set (concat (r # m)) = set r \<union> set (concat m)" by simp
    then have "Max (set (concat (r # m))) = max (Max (set r)) (Max (set (concat m)))"
      using ne cne by (simp only: Max_Un [of "set r" "set (concat m)"] List.finite_set set_empty
                         not_False_eq_True)
    moreover have "set (map (\<lambda>r. Max (set r)) (r # m))
                    = insert (Max (set r)) (set (map (\<lambda>r. Max (set r)) m))"
      by simp
    then have "Max (set (map (\<lambda>r. Max (set r)) (r # m)))
                    = max (Max (set r)) (Max (set (map (\<lambda>r. Max (set r)) m)))"
      using False by (simp only: Max_insert [of "set (map (\<lambda>r. Max (set r)) m)"]
                        List.finite_set set_empty map_is_Nil_conv not_False_eq_True)
    ultimately show ?thesis using ih by simp
  qed
qed

lemma mesh_length_of_Some:
  "mesh_length_of (map (map Some) m) c =
     (if [] \<in> set m \<or> m = [] \<or> c = [] then Inl ValueError
      else Inr (if (Max (set (concat m)) + 0.01) * 3 > Min (set c) then Min (set c) / 3
                else Max (set (concat m)) + 0.01))"
proof (cases "[] \<in> set m")
  case True
  then show ?thesis by (simp add: mesh_length_of_def mapM_e_py_max_Some)
next
  case False
  then have step: "mapM_e py_max (map (map Some) m) = Inr (map Some (map (\<lambda>r. Max (set r)) m))"
    by (simp add: mapM_e_py_max_Some)
  show ?thesis
  proof (cases "m = []")
    case True
    then show ?thesis by (simp add: mesh_length_of_def py_max_def)
  next
    case ne: False
    have "py_max (map Some (map (\<lambda>r. Max (set r)) m)) = Inr (Some (Max (set (concat m))))"
      using ne False by (simp only: py_max_Some Max_row_maxima map_is_Nil_conv if_False
                           not_False_eq_True)
    with step False ne show ?thesis
      by (simp add: mesh_length_of_def py_min_Min Let_def del: set_concat)
  qed
qed


lemma threshold_matrix_cut_off:
  "threshold_matrix self ''cut_off'' cut_off bond_length =
     Inr (replicate (dict_len (atom_symbol_to_type self))
            (replicate (dict_len (atom_symbol_to_type self))
               (case cut_off of None \<Rightarrow> default_cut_off (limda_default self)
                | Some v \<Rightarrow> Some v)))"
  by (simp add: threshold_matrix_def Let_def)

lemma threshold_matrix_Inr:
  assumes "threshold_matrix self mode cut_off bond_length = Inr matrix"
  shows "mode = ''cut_off''
       \<or> (mode = ''bond_length''
            \<and> (\<exists>b. (case bond_length of None \<Rightarrow> default_bond_length (limda_default self)
                       | Some b \<Rightarrow> Some b) = Some b
                     \<and> matrix = map (map Some) b))"
  using assms by (auto simp: threshold_matrix_def Let_def split: if_splits option.splits)

text \<open>
  C5. Whenever \<^verbatim>\<open>get_neighbor_list\<close> reaches the neighbour search, the mode is one of
  the two, the threshold matrix it passes is a non-empty matrix \<open>m\<close> of floats, and the mesh
  length it passes is the largest entry of \<open>m\<close> plus \<open>0.01\<close>, replaced by a third of the
  shortest cell side when three times that value exceeds the shortest cell side. In mode
  \<^verbatim>\<open>"bond_length"\<close> the matrix \<open>m\<close> is the caller's matrix or, when none was passed,
  the stored default; in mode \<^verbatim>\<open>"cut_off"\<close> it is the resolved cut-off repeated in a
  \<open>T \<times> T\<close> matrix. The cell is passed on unchanged.
\<close>

theorem mesh_length_spec:
  assumes "neighbor_search_args self mode cut_off bond_length = Inr a"
  shows "get_neighbor_list ext self mode cut_off bond_length
           = get_neighbor_list_using_cython ext a
       \<and> (\<exists>m. arg_bond_length a = map (map Some) m \<and> concat m \<noteq> [] \<and> cell self \<noteq> []
            \<and> arg_mesh_length a =
                (if (Max (set (concat m)) + 0.01) * 3 > Min (set (cell self))
                 then Min (set (cell self)) / 3 else Max (set (concat m)) + 0.01)
            \<and> (mode = ''cut_off'' \<longrightarrow>
                 (\<exists>c. (case cut_off of None \<Rightarrow> default_cut_off (limda_default self)
                        | Some v \<Rightarrow> Some v) = Some c
                      \<and> m = replicate (dict_len (atom_symbol_to_type self))
                              (replicate (dict_len (atom_symbol_to_type self)) c)))
            \<and> (mode = ''bond_length'' \<longrightarrow>
                 (case bond_length of None \<Rightarrow> default_bond_length (limda_default self)
                  | Some b \<Rightarrow> Some b) = Some m))
       \<and> (mode = ''cut_off'' \<or> mode = ''bond_length'')
       \<and> arg_cell a = cell self"
proof -
  let ?n = "dict_len (atom_symbol_to_type self)"
  let ?c = "case cut_off of None \<Rightarrow> default_cut_off (limda_default self) | Some v \<Rightarrow> Some v"
  let ?b = "case bond_length of None \<Rightarrow> default_bond_length (limda_default self)
            | Some b \<Rightarrow> Some b"
  from assms obtain matrix ml where
    tm: "threshold_matrix self mode cut_off bond_length = Inr matrix" and
    ml: "mesh_length_of matrix (cell self) = Inr ml" and
    a: "arg_bond_length a = matrix" "arg_mesh_length a = ml" "arg_cell a = cell self"
    by (auto simp: neighbor_search_args_def bind_e_eq_Inr)
  have call: "get_neighbor_list ext self mode cut_off bond_length
                = get_neighbor_list_using_cython ext a"
    using assms by (simp add: get_neighbor_list_def)
  have modes: "mode = ''cut_off'' \<or> mode = ''bond_length''"
    using threshold_matrix_Inr [OF tm] by blast
  have shape: "\<exists>m. matrix = map (map Some) m
                 \<and> (mode = ''cut_off'' \<longrightarrow> (\<exists>c. ?c = Some c \<and> m = replicate ?n (replicate ?n c)))
                 \<and> (mode = ''bond_length'' \<longrightarrow> ?b = Some m)"
  proof (cases "mode = ''cut_off''")
    case True
    with tm have m: "matrix = replicate ?n (replicate ?n ?c)"
      by (simp add: threshold_matrix_cut_off)
    show ?thesis
    proof (cases ?c)
      case None
      with m ml show ?thesis by (simp add: mesh_length_of_None split: if_splits)
    next
      case (Some c)
      with m have "matrix = map (map Some) (replicate ?n (replicate ?n c))" by simp
      with Some True show ?thesis by auto
    qed
  next
    case False
    with threshold_matrix_Inr [OF tm] obtain b where
      "mode = ''bond_length''" "?b = Some b" "matrix = map (map Some) b"
      by blast
    with False show ?thesis by blast
  qed
  then obtain m where
    m: "matrix = map (map Some) m" and
    co: "mode = ''cut_off'' \<longrightarrow> (\<exists>c. ?c = Some c \<and> m = replicate ?n (replicate ?n c))" and
    bl: "mode = ''bond_length'' \<longrightarrow> ?b = Some m"
    by blast
  from ml m have ok: "[] \<notin> set m" "m \<noteq> []" "cell self \<noteq> []"
    and val: "ml = (if (Max (set (concat m)) + 0.01) * 3 > Min (set (cell self))
                    then Min (set (cell self)) / 3 else Max (set (concat m)) + 0.01)"
    by (auto simp only: mesh_length_of_Some split: if_splits)
  from ok have ne: "concat m \<noteq> []" by (cases m) auto
  have "\<exists>m. arg_bond_length a = map (map Some) m \<and> concat m \<noteq> [] \<and> cell self \<noteq> []
            \<and> arg_mesh_length a =
                (if (Max (set (concat m)) + 0.01) * 3 > Min (set (cell self))
                 then Min (set (cell self)) / 3 else Max (set (concat m)) + 0.01)
            \<and> (mode = ''cut_off'' \<longrightarrow> (\<exists>c. ?c = Some c \<and> m = replicate ?n (replicate ?n c)))
            \<and> (mode = ''bond_length'' \<longrightarrow> ?b = Some m)"
    using a(1,2) m ne ok(3) val co bl by blast
  with call modes a(3) show ?thesis by (intro conjI)
qed

theorem mesh_length_spec_witness:
  "neighbor_search_args (sample_frame [1, 2, 2]) ''bond_length'' None (Some [[1, 2], [2, 3]])
     = Inr \<lparr> arg_atoms_type = [1, 2, 2],
             arg_atoms_pos = [[0, 0, 0], [0, 0, 0], [0, 0, 0]],
             arg_mesh_length = 3.01,
             arg_atom_num = 3,
             arg_bond_length = [[Some 1, Some 2], [Some 2, Some 3]],
             arg_cell = [10, 10, 10] \<rparr>
   \<and> (3.01 :: real) =
       (if (Max (set (concat [[1, 2], [2, 3]])) + 0.01) * 3
             > Min (set (cell (sample_frame [1, 2, 2])))
        then Min (set (cell (sample_frame [1, 2, 2]))) / 3
        else Max (set (concat [[1, 2], [2, 3]])) + 0.01)
   \<and> neighbor_search_args (sample_frame [1, 2, 2]) ''cut_off'' (Some 4) None
     = Inr \<lparr> arg_atoms_type = [1, 2, 2],
             arg_atoms_pos = [[0, 0, 0], [0, 0, 0], [0, 0, 0]],
             arg_mesh_length = 10 / 3,
             arg_atom_num = 3,
             arg_bond_length = [[Some 4, Some 4], [Some 4, Some 4]],
             arg_cell = [10, 10, 10] \<rparr>
   \<and> (10 / 3 :: real) =
       (if (Max (set (concat (replicate 2 (replicate 2 4)))) + 0.01) * 3
             > Min (set (cell (sample_frame [1, 2, 2])))
        then Min (set (cell (sample_frame [1, 2, 2]))) / 3
        else Max (set (concat (replicate 2 (replicate 2 4)))) + 0.01)"
proof -
  let ?F = "sample_frame [1, 2, 2]"
  let ?b = "\<lparr> arg_atoms_type = [1, 2, 2],
             arg_atoms_pos = [[0, 0, 0], [0, 0, 0], [0, 0, 0]],
             arg_mesh_length = 3.01,
             arg_atom_num = 3,
             arg_bond_length = [[Some 1, Some 2], [Some 2, Some 3]],
             arg_cell = [10, 10, 10 :: real] \<rparr>"
  let ?a = "\<lparr> arg_atoms_type = [1, 2, 2],
             arg_atoms_pos = [[0, 0, 0], [0, 0, 0], [0, 0, 0]],
             arg_mesh_length = 10 / 3,
             arg_atom_num = 3,
             arg_bond_length = [[Some 4, Some 4], [Some 4, Some 4]],
             arg_cell = [10, 10, 10 :: real] \<rparr>"
  have hb: "neighbor_search_args ?F ''bond_length'' None (Some [[1, 2], [2, 3]]) = Inr ?b"
    by (simp add: neighbor_search_args_def threshold_matrix_def
        mesh_length_of_def py_max_def py_min_def sample_frame_def sample_atom_def
        dict_len_def get_total_atoms_def)
  from mesh_length_spec [OF hb, of "fixed_search [] []"]
  obtain mb where
    vb: "arg_mesh_length ?b =
          (if (Max (set (concat mb)) + 0.01) * 3 > Min (set (cell ?F))
           then Min (set (cell ?F)) / 3
           else Max (set (concat mb)) + 0.01)"
    and lb: "''bond_length'' = ''bond_length'' \<longrightarrow>
               (case Some [[1, 2], [2, 3]] of
                  None \<Rightarrow> default_bond_length (limda_default ?F)
                | Some b \<Rightarrow> Some b) = Some mb"
    by blast
  from lb have "mb = [[1, 2], [2, 3]]" by simp
  with vb have rb: "(3.01 :: real) =
       (if (Max (set (concat [[1, 2], [2, 3]])) + 0.01) * 3 > Min (set (cell ?F))
        then Min (set (cell ?F)) / 3
        else Max (set (concat [[1, 2], [2, 3]])) + 0.01)"
    by (simp only: search_args.select_convs)
  have h: "neighbor_search_args ?F ''cut_off'' (Some 4) None = Inr ?a"
    by (simp add: neighbor_search_args_def threshold_matrix_def
        mesh_length_of_def py_max_def py_min_def sample_frame_def sample_atom_def
        dict_len_def get_total_atoms_def numeral_2_eq_2)
  have n: "dict_len (atom_symbol_to_type ?F) = 2"
    by (simp add: sample_frame_def dict_len_def)
  from mesh_length_spec [OF h, of "fixed_search [] []"]
  obtain m where
    v: "arg_mesh_length ?a =
          (if (Max (set (concat m)) + 0.01) * 3 > Min (set (cell ?F))
           then Min (set (cell ?F)) / 3
           else Max (set (concat m)) + 0.01)"
    and c: "''cut_off'' = ''cut_off'' \<longrightarrow>
              (\<exists>c. (case Some 4 of None \<Rightarrow> default_cut_off (limda_default ?F)
                     | Some v \<Rightarrow> Some v) = Some c
                   \<and> m = replicate (dict_len (atom_symbol_to_type ?F))
                           (replicate (dict_len (atom_symbol_to_type ?F)) c))"
    by blast
  from c have "m = replicate 2 (replicate 2 4)" unfolding n by simp
  with v have r: "(10 / 3 :: real) =
       (if (Max (set (concat (replicate 2 (replicate 2 4)))) + 0.01) * 3 > Min (set (cell ?F))
        then Min (set (cell ?F)) / 3
        else Max (set (concat (replicate 2 (replicate 2 4)))) + 0.01)"
    by (simp only: search_args.select_convs)
  from hb rb h r show ?thesis by (intro conjI)
qed

section \<open>The momentum sum\<close>

lemma mapM_e_dict_get:
  "mapM_e (dict_get d) ks =
     (if \<forall>k \<in> set ks. k \<in> fst ` set d then Inr (map (\<lambda>k. the (map_of d k)) ks)
      else Inl KeyError)"
proof (induction ks)
  case Nil
  then show ?case by simp
next
  case (Cons k ks)
  show ?case
  proof (cases "map_of d k")
    case None
    then have "k \<notin> fst ` set d" by (simp add: map_of_eq_None_iff)
    with None show ?thesis by (simp add: dict_get_def)
  next
    case (Some v)
    then have "k \<in> fst ` set d" by (metis map_of_eq_None_iff option.distinct(1))
    with Some Cons.IH show ?thesis by (simp add: dict_get_def)
  qed
qed

lemma sum_list_map2_columns:
  fixes f g :: "'a \<Rightarrow> real"
  shows "sum_list (map2 (*) (map f xs) (map g xs)) = (\<Sum>x\<leftarrow>xs. g x * f x)"
  by (induction xs) (simp_all add: mult.commute)

text \<open>
  C8. \<^verbatim>\<open>get_sum_of_momentums\<close> returns one vector of three components, the \<open>k\<close>-th
  being the sum over all atoms of the mass of the atom's type times the atom's \<open>k\<close>-th
  velocity component (it raises \<^verbatim>\<open>KeyError\<close> exactly when some atom's type has no mass).
  It takes no neighbour list, and two frames with the same type and velocity columns and
  the same type-to-mass table give the same result.
\<close>

theorem get_sum_of_momentums_spec:
  "get_sum_of_momentums self =
     (if \<forall>a \<in> set (atoms self). atom_type a \<in> fst ` set (atom_type_to_mass self)
      then Inr [\<Sum>a\<leftarrow>atoms self. the (map_of (atom_type_to_mass self) (atom_type a)) * atom_vx a,
                \<Sum>a\<leftarrow>atoms self. the (map_of (atom_type_to_mass self) (atom_type a)) * atom_vy a,
                \<Sum>a\<leftarrow>atoms self. the (map_of (atom_type_to_mass self) (atom_type a)) * atom_vz a]
      else Inl KeyError)
   \<and> (map atom_type (atoms self) = map atom_type (atoms other)
        \<and> map atom_vx (atoms self) = map atom_vx (atoms other)
        \<and> map atom_vy (atoms self) = map atom_vy (atoms other)
        \<and> map atom_vz (atoms self) = map atom_vz (atoms other)
        \<and> atom_type_to_mass self = atom_type_to_mass other
      \<longrightarrow> get_sum_of_momentums self = get_sum_of_momentums other)"
proof
  let ?m = "\<lambda>t. the (map_of (atom_type_to_mass self) t)"
  have cols: "sum_list (map2 (*) (map v (atoms self)) (map ?m (map atom_type (atoms self))))
          = (\<Sum>a\<leftarrow>atoms self. ?m (atom_type a) * v a)" for v :: "atom \<Rightarrow> real"
    using sum_list_map2_columns [of v "atoms self" "\<lambda>a. ?m (atom_type a)"]
    by (simp add: comp_def)
  show "get_sum_of_momentums self =
     (if \<forall>a \<in> set (atoms self). atom_type a \<in> fst ` set (atom_type_to_mass self)
      then Inr [\<Sum>a\<leftarrow>atoms self. ?m (atom_type a) * atom_vx a,
                \<Sum>a\<leftarrow>atoms self. ?m (atom_type a) * atom_vy a,
                \<Sum>a\<leftarrow>atoms self. ?m (atom_type a) * atom_vz a]
      else Inl KeyError)"
    unfolding get_sum_of_momentums_def mapM_e_dict_get
    by (simp add: cols Let_def del: map_map)
next
  show "map atom_type (atoms self) = map atom_type (atoms other)
        \<and> map atom_vx (atoms self) = map atom_vx (atoms other)
        \<and> map atom_vy (atoms self) = map atom_vy (atoms other)
        \<and> map atom_vz (atoms self) = map atom_vz (atoms other)
        \<and> atom_type_to_mass self = atom_type_to_mass other
      \<longrightarrow> get_sum_of_momentums self = get_sum_of_momentums other"
    by (simp add: get_sum_of_momentums_def)
qed

theorem get_sum_of_momentums_spec_witness:
  "get_sum_of_momentums (sample_frame [1, 2, 2]) = Inr [18, 36, 54]
   \<and> get_sum_of_momentums (sample_frame [1, 2, 2]) =
       get_sum_of_momentums ((sample_frame [1, 2, 2]) \<lparr> cell := [1, 1, 1] \<rparr>)"
proof -
  note t = get_sum_of_momentums_spec
             [of "sample_frame [1, 2, 2]" "(sample_frame [1, 2, 2]) \<lparr> cell := [1, 1, 1] \<rparr>"]
  from t [THEN conjunct1]
  have v: "get_sum_of_momentums (sample_frame [1, 2, 2]) = Inr [18, 36, 54]"
    by (simp add: sample_frame_def sample_atom_def)
  from t [THEN conjunct2]
  have "get_sum_of_momentums (sample_frame [1, 2, 2]) =
       get_sum_of_momentums ((sample_frame [1, 2, 2]) \<lparr> cell := [1, 1, 1] \<rparr>)"
    by (simp add: sample_frame_def)
  with v show ?thesis by (rule conjI)
qed

section \<open>The edge index\<close>

lemma edge_inner_fold:
  "fold (\<lambda>j (sources, destinations).
            if i < j then (sources @ [i], destinations @ [j]) else (sources, destinations))
        nbrs (s, d)
     = (s @ map fst (map (Pair i) (filter ((<) i) nbrs)),
        d @ map snd (map (Pair i) (filter ((<) i) nbrs)))"
  by (induction nbrs arbitrary: s d) simp_all

lemma edge_outer_fold:
  assumes "\<forall>i \<in> set idxs. i < length nl"
  shows "foldM_e (\<lambda>atom_idx edge_index.
            bind_e (list_get nl atom_idx) (\<lambda>neighbors.
              Inr (fold (\<lambda>neighbor_atom_idx (sources, destinations).
                      if atom_idx < neighbor_atom_idx
                      then (sources @ [atom_idx], destinations @ [neighbor_atom_idx])
                      else (sources, destinations))
                    neighbors edge_index)))
          idxs (s, d)
        = Inr (s @ map fst (bonded_pairs nl idxs), d @ map snd (bonded_pairs nl idxs))"
  using assms
proof (induction idxs arbitrary: s d)
  case Nil
  then show ?case by (simp add: bonded_pairs_def)
next
  case (Cons i idxs)
  then have "list_get nl i = Inr (nl ! i)" by (simp add: list_get_def)
  with Cons show ?case
    by (simp add: edge_inner_fold bonded_pairs_def del: map_map)
qed

lemma edge_index_of_eq:
  assumes "n \<le> length nl"
  shows "edge_index_of n nl =
           Inr [map fst (bonded_pairs nl [0..<n]), map snd (bonded_pairs nl [0..<n])]"
  using assms edge_outer_fold [of "[0..<n]" nl "[]" "[]"]
  by (simp add: edge_index_of_def)

lemma set_bonded_pairs:
  "set (bonded_pairs nl idxs) = {(i, j). i \<in> set idxs \<and> i < j \<and> j \<in> set (nl ! i)}"
  by (auto simp: bonded_pairs_def)

lemma distinct_bonded_pairs:
  assumes "distinct idxs" "\<forall>i \<in> set idxs. distinct (nl ! i)"
  shows "distinct (bonded_pairs nl idxs)"
  using assms
proof (induction idxs)
  case Nil
  then show ?case by (simp add: bonded_pairs_def)
next
  case (Cons i idxs)
  then have ih: "distinct (bonded_pairs nl idxs)" by simp
  have hd: "distinct (map (Pair i) (filter ((<) i) (nl ! i)))"
    using Cons.prems by (simp add: distinct_map inj_on_def)
  have "set (map (Pair i) (filter ((<) i) (nl ! i))) \<inter> set (bonded_pairs nl idxs) = {}"
    using Cons.prems by (auto simp: set_bonded_pairs)
  moreover have "bonded_pairs nl (i # idxs)
                   = map (Pair i) (filter ((<) i) (nl ! i)) @ bonded_pairs nl idxs"
    by (simp add: bonded_pairs_def)
  ultimately show ?case using ih hd by (simp only: distinct_append simp_thms)
qed

lemma sorted_sources:
  assumes "sorted idxs"
  shows "sorted (map fst (bonded_pairs nl idxs))"
  using assms
proof (induction idxs)
  case Nil
  then show ?case by (simp add: bonded_pairs_def)
next
  case (Cons i idxs)
  have split: "map fst (bonded_pairs nl (i # idxs))
          = map fst (map (Pair i) (filter ((<) i) (nl ! i))) @ map fst (bonded_pairs nl idxs)"
    by (simp add: bonded_pairs_def)
  have later: "\<forall>y \<in> set (map fst (bonded_pairs nl idxs)). i \<le> y"
    using Cons.prems by (auto simp: set_bonded_pairs)
  have "sorted (map fst (map (Pair i) (filter ((<) i) (nl ! i))))"
    by (simp add: comp_def sorted_iff_nth_mono)
  with Cons later show ?case
    unfolding split by (auto simp: sorted_append)
qed


lemma count_list_distinct:
  "distinct xs \<Longrightarrow> x \<in> set xs \<Longrightarrow> count_list xs x = 1"
  by (induction xs) auto

lemma symmetric_neighbor_listD:
  assumes "symmetric_neighbor_list n nl"
  shows "length nl = n"
    and "i < n \<Longrightarrow> distinct (nl ! i)"
    and "i < n \<Longrightarrow> i \<notin> set (nl ! i)"
    and "i < n \<Longrightarrow> j \<in> set (nl ! i) \<Longrightarrow> j < n"
    and "i < n \<Longrightarrow> j \<in> set (nl ! i) \<Longrightarrow> i \<in> set (nl ! j)"
proof -
  from assms have a: "length nl = n"
    and b: "\<forall>i \<in> set [0..<n]. distinct (nl ! i) \<and> i \<notin> set (nl ! i) \<and>
              (\<forall>j \<in> set (nl ! i). j < n \<and> i \<in> set (nl ! j))"
    unfolding symmetric_neighbor_list_def by blast+
  have c: "i < n \<Longrightarrow> i \<in> set [0..<n]" by simp
  show "length nl = n" by (rule a)
  show "i < n \<Longrightarrow> distinct (nl ! i)" using b c by blast
  show "i < n \<Longrightarrow> i \<notin> set (nl ! i)" using b c by blast
  show "i < n \<Longrightarrow> j \<in> set (nl ! i) \<Longrightarrow> j < n" using b c by blast
  show "i < n \<Longrightarrow> j \<in> set (nl ! i) \<Longrightarrow> i \<in> set (nl ! j)" using b c by blast
qed

text \<open>
  C6. For a frame whose neighbour list (as the cut-off search returns it) is symmetric and
  free of self-loops, \<^verbatim>\<open>get_edge_index\<close> returns two sequences of equal length,
  sources and destinations, in which every bonded pair \<open>{i, j}\<close> appears exactly once, as
  \<open>(min i j, max i j)\<close>; every entry is such a pair, with source below destination; and
  the sources ascend.
\<close>

theorem get_edge_index_spec:
  assumes "get_neighbor_list ext self ''cut_off'' (Some cut_off) None = Inr neighbor_list"
    and "symmetric_neighbor_list (get_total_atoms self) neighbor_list"
  shows "\<exists>sources destinations.
           get_edge_index ext self cut_off = Inr [sources, destinations]
         \<and> length sources = length destinations
         \<and> (\<forall>i < get_total_atoms self. \<forall>j \<in> set (neighbor_list ! i).
               count_list (zip sources destinations) (min i j, max i j) = 1)
         \<and> (\<forall>(a, b) \<in> set (zip sources destinations).
               a < b \<and> b < get_total_atoms self \<and> b \<in> set (neighbor_list ! a))
         \<and> sorted sources"
proof -
  let ?n = "get_total_atoms self"
  let ?E = "bonded_pairs neighbor_list [0..<?n]"
  note wf = symmetric_neighbor_listD [OF assms(2)]
  have res: "get_edge_index ext self cut_off = Inr [map fst ?E, map snd ?E]"
    using assms(1) wf(1) by (simp add: get_edge_index_def edge_index_of_eq)
  have z: "zip (map fst ?E) (map snd ?E) = ?E" by (rule zip_map_fst_snd)
  have d: "distinct ?E" using wf(2) by (intro distinct_bonded_pairs) simp_all
  have once: "count_list ?E (min i j, max i j) = 1"
    if "i < ?n" "j \<in> set (neighbor_list ! i)" for i j
  proof -
    from that wf(4,5) have j: "j < ?n" "i \<in> set (neighbor_list ! j)" by blast+
    from that wf(3) have ne: "i \<noteq> j" by blast
    have "(min i j, max i j) \<in> set ?E"
    proof (cases "i < j")
      case True
      with that show ?thesis by (simp add: set_bonded_pairs min_def max_def)
    next
      case False
      with ne have "j < i" by simp
      with j show ?thesis by (simp add: set_bonded_pairs min_def max_def)
    qed
    with d show ?thesis by (rule count_list_distinct)
  qed
  have only: "a < b \<and> b < ?n \<and> b \<in> set (neighbor_list ! a)" if "(a, b) \<in> set ?E" for a b
    using that wf(4) [of a b] by (simp add: set_bonded_pairs)
  have s: "sorted (map fst ?E)" by (intro sorted_sources) simp
  show ?thesis
  proof (intro exI conjI)
    show "get_edge_index ext self cut_off = Inr [map fst ?E, map snd ?E]" by (rule res)
    show "length (map fst ?E) = length (map snd ?E)" by simp
    show "\<forall>i < ?n. \<forall>j \<in> set (neighbor_list ! i).
               count_list (zip (map fst ?E) (map snd ?E)) (min i j, max i j) = 1"
      unfolding z using once by blast
    show "\<forall>(a, b) \<in> set (zip (map fst ?E) (map snd ?E)).
               a < b \<and> b < ?n \<and> b \<in> set (neighbor_list ! a)"
      unfolding z using only by blast
    show "sorted (map fst ?E)" by (rule s)
  qed
qed

theorem get_edge_index_spec_witness:
  "get_neighbor_list (fixed_search [[1, 2], [0], [0]] []) (sample_frame [1, 2, 2]) ''cut_off''
       (Some 1.5) None = Inr [[1, 2], [0], [0]]
   \<and> symmetric_neighbor_list (get_total_atoms (sample_frame [1, 2, 2])) [[1, 2], [0], [0]]
   \<and> get_edge_index (fixed_search [[1, 2], [0], [0]] []) (sample_frame [1, 2, 2]) 1.5
       = Inr [[0, 0], [1, 2]]"
proof -
  have h1: "get_neighbor_list (fixed_search [[1, 2], [0], [0]] []) (sample_frame [1, 2, 2])
              ''cut_off'' (Some 1.5) None = Inr [[1, 2], [0], [0]]"
    by (simp add: get_neighbor_list_def neighbor_search_args_def threshold_matrix_def
        mesh_length_of_def py_max_def py_min_def sample_frame_def sample_atom_def
        fixed_search_def dict_len_def get_total_atoms_def)
  have h2: "symmetric_neighbor_list (get_total_atoms (sample_frame [1, 2, 2]))
              [[1, 2], [0], [0]]"
    by (simp add: symmetric_neighbor_list_def get_total_atoms_def sample_frame_def
        upt_rec_numeral)
  from get_edge_index_spec [OF h1 h2]
  obtain sources destinations where
    "get_edge_index (fixed_search [[1, 2], [0], [0]] []) (sample_frame [1, 2, 2]) 1.5
       = Inr [sources, destinations]"
    by blast
  moreover have "get_edge_index (fixed_search [[1, 2], [0], [0]] []) (sample_frame [1, 2, 2]) 1.5
       = Inr [[0, 0], [1, 2]]"
    using h1 by (simp add: get_edge_index_def edge_index_of_def list_get_def
        get_total_atoms_def sample_frame_def upt_rec_numeral)
  ultimately show ?thesis using h1 h2 by blast
qed

section \<open>The sample frames reach the search\<close>

text \<open>
  With a cut-off passed, the sample frames reach the search, and its answer is returned.
\<close>

lemma sample_get_neighbor_list:
  "get_neighbor_list (fixed_search nl mols) (sample_frame ts) ''cut_off'' (Some 1.5) None = Inr nl"
  by (simp add: get_neighbor_list_def neighbor_search_args_def threshold_matrix_def
        mesh_length_of_def py_max_def py_min_def sample_frame_def
        fixed_search_def dict_len_def)

lemma sample_get_mols_list:
  "get_mols_list (fixed_search nl mols) (sample_frame ts) ''cut_off'' (Some 1.5) None = Inr mols"
  unfolding get_mols_list_def sample_get_neighbor_list by (simp add: fixed_search_def)

section \<open>The bond counter on a frame whose first atom has the larger type\<close>

text \<open>
  C1 asks that every bonded pair \<open>i < j\<close> be counted at its type pair with the smaller type
  first. Two bonded atoms, atom 0 of type 2 (H) and atom 1 of type 1 (O): the loop adds the
  bond at row 2, column 1 of the counter, the output reads only columns at or right of the
  diagonal, and \<^verbatim>\<open>count_bonds\<close> reports no O-H bond at all.
\<close>

theorem count_bonds_drops_bond:
  "count_bonds (fixed_search [[1], [0]] []) (sample_frame [2, 1]) ''cut_off'' (Some 1.5) None
     = Inr [(''O-O'', 0), (''O-H'', 0), (''H-H'', 0)]"
proof -
  have "count_bonds_list (sample_frame [2, 1]) [[1], [0]] = Inr [[0, 0], [1, 0]]"
    by (simp add: count_bonds_list_def sample_frame_def sample_atom_def dict_len_def
        get_total_atoms_def list_get_def py_incr2_def py_incr_def py_index_def
        upt_rec_numeral numeral_2_eq_2)
  then have "count_bonds_of (sample_frame [2, 1]) [[1], [0]]
               = Inr [(''O-O'', 0), (''O-H'', 0), (''H-H'', 0)]"
    by (simp add: count_bonds_of_def count_bonds_dict_def sample_frame_def dict_len_def
        dict_get_def upt_rec_numeral)
  then show ?thesis unfolding count_bonds_def sample_get_neighbor_list by simp
qed

text \<open>
  C2 asks that twice the sum of the returned counts equal the summed lengths of the
  neighbour rows. On the same frame the counts sum to 0 and the rows to 2.
\<close>

theorem count_bonds_identity_fails:
  "\<exists>d. count_bonds (fixed_search [[1], [0]] []) (sample_frame [2, 1]) ''cut_off'' (Some 1.5) None
          = Inr d
       \<and> sum_list (map snd d) * 2 = 0
       \<and> sum_list (map length [[1], [0 :: nat]]) = 2"
proof -
  have "count_bonds_list (sample_frame [2, 1]) [[1], [0]] = Inr [[0, 0], [1, 0]]"
    by (simp add: count_bonds_list_def sample_frame_def sample_atom_def dict_len_def
        get_total_atoms_def list_get_def py_incr2_def py_incr_def py_index_def
        upt_rec_numeral numeral_2_eq_2)
  then have "count_bonds_of (sample_frame [2, 1]) [[1], [0]]
               = Inr [(''O-O'', 0), (''O-H'', 0), (''H-H'', 0)]"
    by (simp add: count_bonds_of_def count_bonds_dict_def sample_frame_def dict_len_def
        dict_get_def upt_rec_numeral)
  then have "count_bonds (fixed_search [[1], [0]] []) (sample_frame [2, 1]) ''cut_off''
               (Some 1.5) None = Inr [(''O-O'', 0), (''O-H'', 0), (''H-H'', 0)]"
    unfolding count_bonds_def sample_get_neighbor_list by simp
  then show ?thesis by simp
qed

section \<open>Formula counting on well-formed input\<close>

lemma py_incr_in_range:
  assumes "1 \<le> t" "t \<le> int (length counts)"
  shows "py_incr counts (t - 1) = Inr (counts[nat (t - 1) := counts ! nat (t - 1) + 1])"
  using assms by (simp add: py_incr_def py_index_def)

lemma atom_type_count_fold:
  assumes "\<forall>a \<in> set mol. a < length (atoms self) \<and> 1 \<le> atom_type (atoms self ! a)
             \<and> atom_type (atoms self ! a) \<le> int n"
    and "length counts = n"
  shows "foldM_e (\<lambda>atom_idx counts.
            bind_e (list_get (map atom_type (atoms self)) atom_idx) (\<lambda>t. py_incr counts (t - 1)))
          mol counts
         = Inr (map (\<lambda>t. counts ! t
                      + count_list (map (\<lambda>a. atom_type (atoms self ! a)) mol) (int t + 1))
                  [0..<n])"
  using assms
proof (induction mol arbitrary: counts)
  case Nil
  then show ?case using map_nth [of counts] by simp
next
  case (Cons a mol)
  let ?t = "atom_type (atoms self ! a)"
  let ?c = "counts[nat (?t - 1) := counts ! nat (?t - 1) + 1]"
  from Cons.prems have a: "a < length (atoms self)" "1 \<le> ?t" "?t \<le> int n" by simp_all
  then have get: "list_get (map atom_type (atoms self)) a = Inr ?t"
    by (simp add: list_get_def)
  have incr: "py_incr counts (?t - 1) = Inr ?c"
    using a Cons.prems(2) by (intro py_incr_in_range) simp_all
  have len: "length ?c = n" using Cons.prems(2) by simp
  have rest: "\<forall>a \<in> set mol. a < length (atoms self) \<and> 1 \<le> atom_type (atoms self ! a)
             \<and> atom_type (atoms self ! a) \<le> int n"
    using Cons.prems(1) by simp
  have "map (\<lambda>t. ?c ! t + count_list (map (\<lambda>a. atom_type (atoms self ! a)) mol) (int t + 1))
          [0..<n]
        = map (\<lambda>t. counts ! t
                 + count_list (map (\<lambda>a. atom_type (atoms self ! a)) (a # mol)) (int t + 1))
            [0..<n]"
  proof (rule map_cong [OF refl])
    fix t assume "t \<in> set [0..<n]"
    then have t: "t < length counts" using Cons.prems(2) by simp
    show "?c ! t + count_list (map (\<lambda>a. atom_type (atoms self ! a)) mol) (int t + 1)
          = counts ! t
            + count_list (map (\<lambda>a. atom_type (atoms self ! a)) (a # mol)) (int t + 1)"
    proof (cases "?t = int t + 1")
      case True
      then have "nat (?t - 1) = t" by simp
      with t True show ?thesis by simp
    next
      case False
      then have "nat (?t - 1) \<noteq> t" using a by auto
      with t False show ?thesis by simp
    qed
  qed
  with Cons.IH [OF rest len] get incr show ?case by simp
qed

lemma atom_type_count_eq:
  assumes "\<forall>a \<in> set mol. a < length (atoms self) \<and> 1 \<le> atom_type (atoms self ! a)
             \<and> atom_type (atoms self ! a) \<le> int (dict_len (atom_type_to_symbol self))"
  shows "atom_type_count self mol = Inr (type_counts self mol)"
  unfolding atom_type_count_def type_counts_def
  using atom_type_count_fold [OF assms, of "replicate (dict_len (atom_type_to_symbol self)) 0"]
  by (simp cong: map_cong)

lemma mol_str_fold:
  assumes "\<forall>t \<in> set ts. map_of (atom_type_to_symbol self) (int t + 1) \<noteq> None"
  shows "foldM_e (\<lambda>atom_type s.
           if counts ! atom_type = 0 then Inr s
           else bind_e (dict_get (atom_type_to_symbol self) (int atom_type + 1)) (\<lambda>symbol.
                  Inr (s @ symbol @ str_nat (counts ! atom_type))))
         ts s
        = Inr (s @ concat (map (\<lambda>t. if counts ! t = 0 then []
                       else the (map_of (atom_type_to_symbol self) (int t + 1))
                              @ str_nat (counts ! t)) ts))"
  using assms
proof (induction ts arbitrary: s)
  case Nil
  then show ?case by simp
next
  case (Cons t ts)
  then obtain sym where "map_of (atom_type_to_symbol self) (int t + 1) = Some sym" by auto
  with Cons show ?case by (simp add: dict_get_def)
qed

lemma mol_str_eq:
  assumes "\<forall>t \<in> set [0..<dict_len (atom_type_to_symbol self)].
             map_of (atom_type_to_symbol self) (int t + 1) \<noteq> None"
  shows "mol_str self counts = Inr (formula_string self counts)"
  unfolding mol_str_def formula_string_def using mol_str_fold [OF assms, of counts "''''"]
  by simp

lemma mapM_e_Inr:
  assumes "\<forall>x \<in> set xs. f x = Inr (g x)"
  shows "mapM_e f xs = Inr (map g xs)"
  using assms by (induction xs) simp_all

lemma mols_count_tmp_fold:
  "foldM_e (\<lambda>mol d. bind_e (f mol) (\<lambda>counts. Inr (tally d counts))) mols d
     = bind_e (mapM_e f mols) (\<lambda>cs. Inr (fold (\<lambda>c d. tally d c) cs d))"
proof (induction mols arbitrary: d)
  case Nil
  then show ?case by simp
next
  case (Cons mol mols)
  show ?case
  proof (cases "f mol")
    case (Inl e)
    then show ?thesis by simp
  next
    case (Inr c)
    then show ?thesis using Cons.IH [of "tally d c"]
      by (cases "mapM_e f mols") simp_all
  qed
qed

lemma mols_count_tmp_eq:
  assumes "well_formed_molecules self mols"
  shows "mols_count_tmp self mols
           = Inr (fold (\<lambda>c d. tally d c) (map (type_counts self) mols) [])"
proof -
  have "mapM_e (atom_type_count self) mols = Inr (map (type_counts self) mols)"
    using assms unfolding well_formed_molecules_def
    by (intro mapM_e_Inr ballI atom_type_count_eq) blast
  then show ?thesis by (simp add: mols_count_tmp_def mols_count_tmp_fold)
qed


lemma update_fresh: "k \<notin> fst ` set d \<Longrightarrow> AList.update k v d = d @ [(k, v)]"
  by (induction d) auto




lemma map_of_tally:
  "map_of (tally d k) k' =
     (if k' = k then Some ((case map_of d k of None \<Rightarrow> 0 | Some c \<Rightarrow> c) + 1) else map_of d k')"
  by (simp add: tally_def update_conv')

lemma map_of_fold_tally:
  "map_of (fold (\<lambda>c d. tally d c) cs d) k =
     (if k \<in> set cs then Some ((case map_of d k of None \<Rightarrow> 0 | Some n \<Rightarrow> n) + count_list cs k)
      else map_of d k)"
  by (induction cs arbitrary: d) (auto simp: map_of_tally)

lemma distinct_fold_tally:
  "distinct (map fst d) \<Longrightarrow> distinct (map fst (fold (\<lambda>c d. tally d c) cs d))"
  by (induction cs arbitrary: d) (simp_all add: tally_def distinct_update)

lemma keys_fold_tally:
  "fst ` set (fold (\<lambda>c d. tally d c) cs d) = fst ` set d \<union> set cs"
  by (induction cs arbitrary: d) (auto simp: tally_def dom_update)

lemma mols_count_fold:
  assumes "\<forall>p \<in> set items. str (fst p) = Inr (s (fst p))"
    and "distinct (map (\<lambda>p. s (fst p)) items)"
    and "\<forall>p \<in> set items. s (fst p) \<notin> fst ` set d"
  shows "foldM_e (\<lambda>(counts, count) d. bind_e (str counts) (\<lambda>s. Inr (AList.update s count d)))
           items d
         = Inr (d @ map (\<lambda>p. (s (fst p), snd p)) items)"
  using assms
proof (induction items arbitrary: d)
  case Nil
  then show ?case by simp
next
  case (Cons p items)
  obtain c n where p: "p = (c, n)" by (cases p)
  from Cons.prems p have str: "str c = Inr (s c)" and fresh: "s c \<notin> fst ` set d" by auto
  let ?d = "d @ [(s c, n)]"
  have "foldM_e (\<lambda>(counts, count) d. bind_e (str counts) (\<lambda>s. Inr (AList.update s count d)))
           items ?d
         = Inr (?d @ map (\<lambda>p. (s (fst p), snd p)) items)"
  proof (rule Cons.IH)
    show "\<forall>p \<in> set items. str (fst p) = Inr (s (fst p))" using Cons.prems(1) by simp
    show "distinct (map (\<lambda>p. s (fst p)) items)" using Cons.prems(2) by simp
    show "\<forall>q \<in> set items. s (fst q) \<notin> fst ` set ?d"
    proof
      fix q assume q: "q \<in> set items"
      with Cons.prems(2) p have "s (fst q) \<noteq> s c" by force
      moreover from q Cons.prems(3) have "s (fst q) \<notin> fst ` set d" by simp
      ultimately show "s (fst q) \<notin> fst ` set ?d" by simp
    qed
  qed
  with str fresh p show ?case by (simp add: update_fresh)
qed

lemma map_of_rekey:
  assumes "inj_on s (fst ` set items)" "c \<in> fst ` set items"
  shows "map_of (map (\<lambda>p. (s (fst p), snd p)) items) (s c) = map_of items c"
  using assms
proof (induction items)
  case Nil
  then show ?case by simp
next
  case (Cons p items)
  show ?case
  proof (cases "fst p = c")
    case True
    then show ?thesis by simp
  next
    case False
    with Cons.prems have c: "c \<in> fst ` set items" by auto
    from Cons.prems(1) have inj: "inj_on s (fst ` set items)"
      by (rule inj_on_subset) auto
    have "s (fst p) \<noteq> s c"
      using Cons.prems(1) c False by (auto simp: inj_on_def)
    with Cons.IH [OF inj c] False show ?thesis by simp
  qed
qed

text \<open>The outcome of \<open>count_mols_of\<close> on well-formed input without colliding formulas.\<close>

lemma count_mols_of_eq:
  assumes wf: "well_formed_molecules self mols"
    and inj: "inj_on (formula_string self) (type_counts self ` set mols)"
  shows "count_mols_of self mols =
           Inr (map (\<lambda>p. (formula_string self (fst p), snd p))
                  (fold (\<lambda>c d. tally d c) (map (type_counts self) mols) []))"
proof -
  let ?cs = "map (type_counts self) mols"
  let ?items = "fold (\<lambda>c d. tally d c) ?cs []"
  have keys: "fst ` set ?items = set ?cs" by (simp add: keys_fold_tally)
  have dist: "distinct (map fst ?items)" by (rule distinct_fold_tally) simp
  have str: "\<forall>p \<in> set ?items. mol_str self (fst p) = Inr (formula_string self (fst p))"
    using wf unfolding well_formed_molecules_def by (intro ballI mol_str_eq) blast
  have "inj_on (formula_string self) (set (map fst ?items))"
    using inj keys by simp
  with dist have "distinct (map (formula_string self) (map fst ?items))"
    by (simp only: distinct_map simp_thms)
  then have d2: "distinct (map (\<lambda>p. formula_string self (fst p)) ?items)"
    by (simp add: comp_def)
  have "mols_count (mol_str self) ?items
          = Inr ([] @ map (\<lambda>p. (formula_string self (fst p), snd p)) ?items)"
    unfolding mols_count_def using str d2 by (intro mols_count_fold) simp_all
  then show ?thesis by (simp add: count_mols_of_def mols_count_tmp_eq [OF wf])
qed




text \<open>
  C7, as the code has it. For well-formed molecules whose compositions have pairwise
  different formula strings, \<^verbatim>\<open>count_mols\<close> counts each molecule's atoms per type,
  builds the formula string of the spec (ascending type, zero counts omitted, symbol
  followed by count, no separator), and returns a map with one key per formula string that
  occurs, its value the number of components with that formula string.
\<close>

theorem count_mols_spec:
  assumes "get_mols_list ext self mode cut_off bond_length = Inr mols_list"
    and "well_formed_molecules self mols_list"
    and "inj_on (formula_string self) (type_counts self ` set mols_list)"
  shows "\<exists>d. count_mols ext self mode cut_off bond_length = Inr d
           \<and> distinct (map fst d)
           \<and> (\<forall>mol \<in> set mols_list.
                 atom_type_count self mol = Inr (type_counts self mol)
               \<and> mol_str self (type_counts self mol)
                   = Inr (formula_string self (type_counts self mol)))
           \<and> (\<forall>key. map_of d key =
                 (if key \<in> (\<lambda>mol. formula_string self (type_counts self mol)) ` set mols_list
                  then Some (length (filter
                         (\<lambda>mol. formula_string self (type_counts self mol) = key) mols_list))
                  else None))"
proof -
  let ?s = "formula_string self"
  let ?cs = "map (type_counts self) mols_list"
  let ?items = "fold (\<lambda>c d. tally d c) ?cs []"
  let ?d = "map (\<lambda>p. (?s (fst p), snd p)) ?items"
  have keys: "fst ` set ?items = set ?cs" by (simp add: keys_fold_tally)
  have dist: "distinct (map fst ?items)" by (rule distinct_fold_tally) simp
  have injk: "inj_on ?s (fst ` set ?items)" using assms(3) keys by simp
  have res: "count_mols ext self mode cut_off bond_length = Inr ?d"
    using assms(1) by (simp add: count_mols_def count_mols_of_eq [OF assms(2,3)])
  have dd: "distinct (map fst ?d)"
  proof -
    have "map fst ?d = map ?s (map fst ?items)" by (simp add: comp_def)
    moreover have "distinct (map ?s (map fst ?items))"
      using dist injk by (simp only: distinct_map set_map simp_thms)
    ultimately show ?thesis by (simp only:)
  qed
  have built: "atom_type_count self mol = Inr (type_counts self mol)
               \<and> mol_str self (type_counts self mol) = Inr (?s (type_counts self mol))"
    if "mol \<in> set mols_list" for mol
  proof
    show "atom_type_count self mol = Inr (type_counts self mol)"
      using assms(2) that unfolding well_formed_molecules_def
      by (intro atom_type_count_eq) blast
    show "mol_str self (type_counts self mol) = Inr (?s (type_counts self mol))"
      using assms(2) unfolding well_formed_molecules_def by (intro mol_str_eq) blast
  qed
  have look: "map_of ?d key =
                 (if key \<in> (\<lambda>mol. ?s (type_counts self mol)) ` set mols_list
                  then Some (length (filter (\<lambda>mol. ?s (type_counts self mol) = key) mols_list))
                  else None)" for key
  proof (cases "key \<in> (\<lambda>mol. ?s (type_counts self mol)) ` set mols_list")
    case True
    then obtain c where c: "c \<in> set ?cs" and key: "key = ?s c" by auto
    from c keys have ck: "c \<in> fst ` set ?items" by simp
    have "map_of ?d key = map_of ?items c"
      unfolding key by (rule map_of_rekey [OF injk ck])
    also have "\<dots> = Some (count_list ?cs c)"
      using c by (simp add: map_of_fold_tally)
    also have "count_list ?cs c = count_list (map ?s ?cs) (?s c)"
      using assms(3) c by (intro count_list_inj_map [symmetric]) simp_all
    also have "\<dots> = length (filter (\<lambda>mol. ?s (type_counts self mol) = key) mols_list)"
      unfolding key by (simp add: count_list_eq_length_filter filter_map comp_def eq_commute)
    finally show ?thesis using True by simp
  next
    case False
    have "fst ` set ?d = ?s ` (fst ` set ?items)" by (simp add: image_image)
    also have "\<dots> = (\<lambda>mol. ?s (type_counts self mol)) ` set mols_list"
      unfolding keys by (simp add: image_image)
    finally have "key \<notin> fst ` set ?d" using False by simp
    then have "map_of ?d key = None" by (simp add: map_of_eq_None_iff)
    with False show ?thesis by simp
  qed
  show ?thesis
  proof (intro exI conjI ballI allI)
    show "count_mols ext self mode cut_off bond_length = Inr ?d" by (rule res)
    show "distinct (map fst ?d)" by (rule dd)
    show "atom_type_count self mol = Inr (type_counts self mol)"
      if "mol \<in> set mols_list" for mol using built [OF that] by (rule conjunct1)
    show "mol_str self (type_counts self mol) = Inr (?s (type_counts self mol))"
      if "mol \<in> set mols_list" for mol using built [OF that] by (rule conjunct2)
    show "map_of ?d key =
                 (if key \<in> (\<lambda>mol. ?s (type_counts self mol)) ` set mols_list
                  then Some (length (filter (\<lambda>mol. ?s (type_counts self mol) = key) mols_list))
                  else None)" for key by (rule look)
  qed
qed


lemma sample_type_counts:
  "type_counts (sample_frame [1, 2, 2, 1, 2, 2, 2]) [0, 1, 2] = [1, 2]"
  "type_counts (sample_frame [1, 2, 2, 1, 2, 2, 2]) [3, 4, 5] = [1, 2]"
  "type_counts (sample_frame [1, 2, 2, 1, 2, 2, 2]) [6] = [0, 1]"
  by (simp_all add: type_counts_def sample_frame_def sample_atom_def dict_len_def
        upt_rec_numeral)

lemma sample_mol_str:
  "mol_str (sample_frame ts) [1, 2] = Inr ''O1H2''"
  "mol_str (sample_frame ts) [0, 1] = Inr ''H1''"
  by (simp_all add: mol_str_def sample_frame_def dict_len_def dict_get_def upt_rec_numeral
        str_nat.simps digit_char_def)

lemma sample_well_formed:
  "well_formed_molecules (sample_frame [1, 2, 2, 1, 2, 2, 2]) [[0, 1, 2], [3, 4, 5], [6]]"
  by (simp add: well_formed_molecules_def sample_frame_def sample_atom_def dict_len_def
        upt_rec_numeral)

lemma sample_count_mols_of:
  "count_mols_of (sample_frame [1, 2, 2, 1, 2, 2, 2]) [[0, 1, 2], [3, 4, 5], [6]]
     = Inr [(''O1H2'', 2), (''H1'', 1)]"
proof -
  have c: "atom_type_count (sample_frame [1, 2, 2, 1, 2, 2, 2]) [0, 1, 2] = Inr [1, 2]"
    "atom_type_count (sample_frame [1, 2, 2, 1, 2, 2, 2]) [3, 4, 5] = Inr [1, 2]"
    "atom_type_count (sample_frame [1, 2, 2, 1, 2, 2, 2]) [6] = Inr [0, 1]"
    by (simp_all add: atom_type_count_def sample_frame_def sample_atom_def dict_len_def
        list_get_def py_incr_def py_index_def numeral_2_eq_2)
  have "mols_count_tmp (sample_frame [1, 2, 2, 1, 2, 2, 2]) [[0, 1, 2], [3, 4, 5], [6]]
          = Inr [([1, 2], 2), ([0, 1], 1)]"
    by (simp add: mols_count_tmp_def c tally_def del: One_nat_def)
  then show ?thesis
    by (simp add: count_mols_of_def mols_count_def sample_mol_str del: One_nat_def)
qed


theorem count_mols_spec_witness:
  "get_mols_list (fixed_search [] [[0, 1, 2], [3, 4, 5], [6]])
       (sample_frame [1, 2, 2, 1, 2, 2, 2]) ''cut_off'' (Some 1.5) None
     = Inr [[0, 1, 2], [3, 4, 5], [6]]
   \<and> well_formed_molecules (sample_frame [1, 2, 2, 1, 2, 2, 2]) [[0, 1, 2], [3, 4, 5], [6]]
   \<and> inj_on (formula_string (sample_frame [1, 2, 2, 1, 2, 2, 2]))
        (type_counts (sample_frame [1, 2, 2, 1, 2, 2, 2]) ` set [[0, 1, 2], [3, 4, 5], [6]])
   \<and> count_mols (fixed_search [] [[0, 1, 2], [3, 4, 5], [6]])
             (sample_frame [1, 2, 2, 1, 2, 2, 2]) ''cut_off'' (Some 1.5) None
       = Inr [(''O1H2'', 2), (''H1'', 1)]
   \<and> map_of [(''O1H2'', 2), (''H1'', 1 :: nat)] ''O1H2''
       = Some (length (filter
           (\<lambda>mol. formula_string (sample_frame [1, 2, 2, 1, 2, 2, 2])
                    (type_counts (sample_frame [1, 2, 2, 1, 2, 2, 2]) mol) = ''O1H2'')
           [[0, 1, 2], [3, 4, 5], [6]]))"
proof -
  let ?F = "sample_frame [1, 2, 2, 1, 2, 2, 2]"
  let ?M = "[[0, 1, 2], [3, 4, 5], [6 :: nat]]"
  have f: "formula_string ?F [1, 2] = ''O1H2''" "formula_string ?F [0, 1] = ''H1''"
    by (simp_all add: formula_string_def sample_frame_def dict_len_def upt_rec_numeral
        str_nat.simps digit_char_def)
  have h1: "get_mols_list (fixed_search [] ?M) ?F ''cut_off'' (Some 1.5) None = Inr ?M"
    by (rule sample_get_mols_list)
  have h2: "well_formed_molecules ?F ?M" by (rule sample_well_formed)
  have h3: "inj_on (formula_string ?F) (type_counts ?F ` set ?M)"
    by (simp add: sample_type_counts f del: One_nat_def)
  have r: "count_mols (fixed_search [] ?M) ?F ''cut_off'' (Some 1.5) None
             = Inr [(''O1H2'', 2), (''H1'', 1)]"
    unfolding count_mols_def sample_get_mols_list
    by (simp only: bind_e_simps sample_count_mols_of)
  from count_mols_spec [OF h1 h2 h3] obtain d where
    d: "count_mols (fixed_search [] ?M) ?F ''cut_off'' (Some 1.5) None = Inr d"
    and l: "\<forall>key. map_of d key =
                 (if key \<in> (\<lambda>mol. formula_string ?F (type_counts ?F mol)) ` set ?M
                  then Some (length (filter
                         (\<lambda>mol. formula_string ?F (type_counts ?F mol) = key) ?M))
                  else None)"
    by blast
  from d r have "d = [(''O1H2'', 2), (''H1'', 1)]" by simp
  with l have "map_of [(''O1H2'', 2), (''H1'', 1 :: nat)] ''O1H2''
       = (if ''O1H2'' \<in> (\<lambda>mol. formula_string ?F (type_counts ?F mol)) ` set ?M
          then Some (length (filter
                         (\<lambda>mol. formula_string ?F (type_counts ?F mol) = ''O1H2'') ?M))
          else None)"
    by blast
  moreover have "''O1H2'' \<in> (\<lambda>mol. formula_string ?F (type_counts ?F mol)) ` set ?M"
    by (simp add: sample_type_counts f del: One_nat_def)
  ultimately have "map_of [(''O1H2'', 2), (''H1'', 1 :: nat)] ''O1H2''
       = Some (length (filter
                         (\<lambda>mol. formula_string ?F (type_counts ?F mol) = ''O1H2'') ?M))"
    by (simp only: if_True)
  with h1 h2 h3 r show ?thesis by (intro conjI)
qed


lemma collision_get_mols_list:
  "get_mols_list (fixed_search nl mols) collision_frame ''cut_off'' (Some 1.5) None = Inr mols"
  by (simp add: get_mols_list_def get_neighbor_list_def neighbor_search_args_def
        threshold_matrix_def mesh_length_of_def py_max_def py_min_def collision_frame_def
        sample_frame_def fixed_search_def dict_len_def)

text \<open>
  Without that proviso the tally by string fails. With the symbols \<open>X\<close> and \<open>X1\<close>, a
  molecule of eleven atoms of type 1 and a molecule of one atom of type 2 both have the
  formula string \<open>X11\<close>; the second loop assigns, it does not add, and the map returned
  holds 1 for \<open>X11\<close> although two components yield it.
\<close>

theorem count_mols_collision:
  "atom_type_count collision_frame [0, 1, 2, 3, 4, 5, 6, 7, 8, 9, 10] = Inr [11, 0]
   \<and> mol_str collision_frame [11, 0] = Inr ''X11''
   \<and> atom_type_count collision_frame [11] = Inr [0, 1]
   \<and> mol_str collision_frame [0, 1] = Inr ''X11''
   \<and> count_mols (fixed_search [] [[0, 1, 2, 3, 4, 5, 6, 7, 8, 9, 10], [11]]) collision_frame
         ''cut_off'' (Some 1.5) None
       = Inr [(''X11'', 1)]"
proof -
  have c1: "atom_type_count collision_frame [0, 1, 2, 3, 4, 5, 6, 7, 8, 9, 10] = Inr [11, 0]"
    by (simp add: atom_type_count_def collision_frame_def sample_frame_def sample_atom_def
        dict_len_def list_get_def py_incr_def py_index_def numeral_2_eq_2)
  have c2: "atom_type_count collision_frame [11] = Inr [0, 1]"
    by (simp add: atom_type_count_def collision_frame_def sample_frame_def sample_atom_def
        dict_len_def list_get_def py_incr_def py_index_def numeral_2_eq_2)
  have s1: "mol_str collision_frame [11, 0] = Inr ''X11''"
    by (simp add: mol_str_def collision_frame_def sample_frame_def dict_len_def dict_get_def
        upt_rec_numeral str_nat.simps digit_char_def)
  have s2: "mol_str collision_frame [0, 1] = Inr ''X11''"
    by (simp add: mol_str_def collision_frame_def sample_frame_def dict_len_def dict_get_def
        upt_rec_numeral str_nat.simps digit_char_def)
  have "mols_count_tmp collision_frame [[0, 1, 2, 3, 4, 5, 6, 7, 8, 9, 10], [11]]
          = Inr [([11, 0], 1), ([0, 1], 1)]"
    by (simp add: mols_count_tmp_def c1 c2 tally_def del: One_nat_def)
  then have "count_mols_of collision_frame [[0, 1, 2, 3, 4, 5, 6, 7, 8, 9, 10], [11]]
          = Inr [(''X11'', 1)]"
    by (simp add: count_mols_of_def mols_count_def s1 s2 del: One_nat_def)
  then have "count_mols (fixed_search [] [[0, 1, 2, 3, 4, 5, 6, 7, 8, 9, 10], [11]])
         collision_frame ''cut_off'' (Some 1.5) None = Inr [(''X11'', 1)]"
    unfolding count_mols_def collision_get_mols_list by (simp only: bind_e_simps)
  with c1 s1 c2 s2 show ?thesis by (intro conjI)
qed

section \<open>The old and the new formula counting\<close>

lemma foldM_e_cong:
  assumes "\<And>x s. x \<in> set xs \<Longrightarrow> f x s = g x s"
  shows "foldM_e f xs s = foldM_e g xs s"
  using assms
proof (induction xs arbitrary: s)
  case Nil
  then show ?case by simp
next
  case (Cons x xs)
  then have "f x s = g x s" and "\<And>s'. foldM_e f xs s' = foldM_e g xs s'" by simp_all
  then show ?case by (cases "g x s") simp_all
qed

lemma mapM_e_Inr_set:
  assumes "mapM_e f xs = Inr ys" "y \<in> set ys"
  shows "\<exists>x \<in> set xs. f x = Inr y"
  using assms
proof (induction xs arbitrary: ys)
  case Nil
  then show ?case by simp
next
  case (Cons x xs)
  from Cons.prems(1) obtain z zs where
    z: "f x = Inr z" and zs: "mapM_e f xs = Inr zs" and ys: "ys = z # zs"
    by (auto simp: bind_e_eq_Inr)
  show ?case
  proof (cases "y = z")
    case True
    with z show ?thesis by simp
  next
    case False
    with ys Cons.prems(2) have "y \<in> set zs" by simp
    with Cons.IH [OF zs] show ?thesis by auto
  qed
qed

lemma mols_count_tmp_keys:
  assumes "mols_count_tmp self mols = Inr items" "p \<in> set items"
  shows "\<exists>mol \<in> set mols. atom_type_count self mol = Inr (fst p)"
proof -
  from assms(1) obtain cs where
    cs: "mapM_e (atom_type_count self) mols = Inr cs"
    and items: "items = fold (\<lambda>c d. tally d c) cs []"
    by (auto simp: mols_count_tmp_def mols_count_tmp_fold bind_e_eq_Inr)
  from assms(2) items have "fst p \<in> set cs"
    using keys_fold_tally [of cs "[]"] by auto
  with cs show ?thesis by (rule mapM_e_Inr_set)
qed

text \<open>Counting the atoms of a molecule of one type touches one counter only.\<close>

lemma atom_type_count_one_type:
  assumes "foldM_e (\<lambda>atom_idx counts.
              bind_e (list_get types atom_idx) (\<lambda>t. py_incr counts (t - 1)))
            mol counts = Inr c"
    and "\<forall>a \<in> set mol. a < length types \<longrightarrow> types ! a = ty"
  shows "length c = length counts
       \<and> (\<forall>t. py_index (length counts) (ty - 1) \<noteq> Inr t \<longrightarrow> c ! t = counts ! t)"
  using assms
proof (induction mol arbitrary: counts)
  case Nil
  then show ?case by simp
next
  case (Cons a mol)
  from Cons.prems(1) obtain t counts' where
    t: "list_get types a = Inr t" and
    incr: "py_incr counts (t - 1) = Inr counts'" and
    rest: "foldM_e (\<lambda>atom_idx counts.
              bind_e (list_get types atom_idx) (\<lambda>t. py_incr counts (t - 1)))
            mol counts' = Inr c"
    by (auto simp: bind_e_eq_Inr)
  from t have "a < length types" "t = types ! a"
    by (auto simp: list_get_def split: if_splits)
  with Cons.prems(2) have ty: "t = ty" by simp
  from incr obtain k where
    k: "py_index (length counts) (ty - 1) = Inr k" and
    c': "counts' = counts[k := counts ! k + 1]"
    unfolding ty by (auto simp: py_incr_def bind_e_eq_Inr)
  from Cons.prems(2) have "\<forall>a \<in> set mol. a < length types \<longrightarrow> types ! a = ty" by simp
  from Cons.IH [OF rest this] have
    ih: "length c = length counts'"
      "\<forall>t. py_index (length counts') (ty - 1) \<noteq> Inr t \<longrightarrow> c ! t = counts' ! t"
    by simp_all
  have len: "length counts' = length counts" using c' by simp
  show ?case
  proof (intro conjI allI impI)
    show "length c = length counts" using ih(1) len by simp
    fix u assume u: "py_index (length counts) (ty - 1) \<noteq> Inr u"
    with k have "u \<noteq> k" by auto
    with ih(2) u len c' show "c ! u = counts ! u" by simp
  qed
qed

lemma one_type_one_counter:
  assumes "atom_type_count self mol = Inr c"
    and "\<forall>a \<in> set mol. a < length (atoms self) \<longrightarrow> atom_type (atoms self ! a) = ty"
  shows "\<exists>k. \<forall>t < dict_len (atom_type_to_symbol self). t \<noteq> k \<longrightarrow> c ! t = 0"
proof -
  let ?n = "dict_len (atom_type_to_symbol self)"
  have types: "\<forall>a \<in> set mol. a < length (map atom_type (atoms self))
                 \<longrightarrow> map atom_type (atoms self) ! a = ty"
    using assms(2) by simp
  from atom_type_count_one_type [OF assms(1) [unfolded atom_type_count_def] types]
  have same: "\<forall>t. py_index ?n (ty - 1) \<noteq> Inr t \<longrightarrow> c ! t = replicate ?n 0 ! t"
    by simp
  show ?thesis
  proof (cases "py_index ?n (ty - 1)")
    case (Inl e)
    with same have "\<forall>t < ?n. c ! t = 0" by simp
    then show ?thesis by blast
  next
    case (Inr k)
    with same have "\<forall>t < ?n. t \<noteq> k \<longrightarrow> c ! t = 0" by auto
    then show ?thesis by blast
  qed
qed

text \<open>Types without atoms leave the string as it is, in both versions.\<close>

lemma mol_str_skip_zeros:
  assumes "\<forall>t \<in> set ts. counts ! t = 0"
  shows "foldM_e (\<lambda>atom_type s.
           if counts ! atom_type = 0 then Inr s
           else bind_e (dict_get symbols (int atom_type + 1)) (\<lambda>symbol.
                  Inr (s @ symbol @ str_nat (counts ! atom_type))))
         ts s = Inr s"
    and "foldM_e (\<lambda>atom_type s.
           if counts ! atom_type = 0 then Inr s
           else bind_e (dict_get symbols (int atom_type + 1)) (\<lambda>symbol.
                  if s = '''' then Inr (symbol @ str_nat (counts ! atom_type))
                  else Inr (s @ '' '' @ symbol @ str_nat (counts ! atom_type))))
         ts s = Inr s"
  using assms by (induction ts arbitrary: s) simp_all

lemma mol_str_one_type:
  assumes "distinct ts" "\<forall>t \<in> set ts. t \<noteq> k \<longrightarrow> counts ! t = 0"
  shows "foldM_e (\<lambda>atom_type s.
           if counts ! atom_type = 0 then Inr s
           else bind_e (dict_get symbols (int atom_type + 1)) (\<lambda>symbol.
                  Inr (s @ symbol @ str_nat (counts ! atom_type))))
         ts ''''
       = foldM_e (\<lambda>atom_type s.
           if counts ! atom_type = 0 then Inr s
           else bind_e (dict_get symbols (int atom_type + 1)) (\<lambda>symbol.
                  if s = '''' then Inr (symbol @ str_nat (counts ! atom_type))
                  else Inr (s @ '' '' @ symbol @ str_nat (counts ! atom_type))))
         ts ''''"
  using assms
proof (induction ts)
  case Nil
  then show ?case by simp
next
  case (Cons t ts)
  show ?case
  proof (cases "counts ! t = 0")
    case True
    with Cons show ?thesis by simp
  next
    case False
    with Cons.prems(2) have "t = k" by auto
    with Cons.prems have zeros: "\<forall>u \<in> set ts. counts ! u = 0" by auto
    show ?thesis
    proof (cases "dict_get symbols (int t + 1)")
      case (Inl e)
      with False show ?thesis by simp
    next
      case (Inr symbol)
      with False show ?thesis by (simp add: mol_str_skip_zeros [OF zeros])
    qed
  qed
qed

lemma mol_str_versions_agree:
  assumes "\<forall>t < dict_len (atom_type_to_symbol self). t \<noteq> k \<longrightarrow> counts ! t = 0"
  shows "mol_str self counts = AnalizeFrame_mol_str self counts"
  unfolding mol_str_def AnalizeFrame_mol_str_def
  using assms by (intro mol_str_one_type [where k = k]) simp_all

text \<open>
  C9, as the code has it. On the same frame and the same molecule list, the old
  \<^verbatim>\<open>AnalizeFrame.count_mols\<close> and the new \<^verbatim>\<open>AnalyzeFrame.count_mols\<close> return equal
  maps (or fail alike) whenever no molecule holds atoms of two different types: then no
  key has a second part, and the old version writes its separating space only before a
  second part.
\<close>

theorem count_mols_versions_agree:
  assumes "get_mols_list ext self mode cut_off bond_length = Inr mols_list"
    and "\<forall>mol \<in> set mols_list. \<exists>ty. \<forall>a \<in> set mol.
           a < length (atoms self) \<longrightarrow> atom_type (atoms self ! a) = ty"
  shows "AnalizeFrame_count_mols ext self mode cut_off bond_length
           = count_mols ext self mode cut_off bond_length"
proof -
  have "AnalizeFrame_count_mols_of self mols_list = count_mols_of self mols_list"
  proof (cases "mols_count_tmp self mols_list")
    case (Inl e)
    then show ?thesis by (simp add: AnalizeFrame_count_mols_of_def count_mols_of_def)
  next
    case (Inr items)
    have agree: "mol_str self (fst p) = AnalizeFrame_mol_str self (fst p)"
      if "p \<in> set items" for p
    proof -
      from mols_count_tmp_keys [OF Inr that] obtain mol where
        mol: "mol \<in> set mols_list" and c: "atom_type_count self mol = Inr (fst p)"
        by blast
      from assms(2) mol obtain ty where
        "\<forall>a \<in> set mol. a < length (atoms self) \<longrightarrow> atom_type (atoms self ! a) = ty"
        by blast
      from one_type_one_counter [OF c this] obtain k where
        "\<forall>t < dict_len (atom_type_to_symbol self). t \<noteq> k \<longrightarrow> fst p ! t = 0"
        by blast
      then show ?thesis by (rule mol_str_versions_agree)
    qed
    have "mols_count (AnalizeFrame_mol_str self) items = mols_count (mol_str self) items"
      unfolding mols_count_def
    proof (rule foldM_e_cong)
      fix p d assume "p \<in> set items"
      from agree [OF this] show
        "(case p of (counts, count) \<Rightarrow> \<lambda>d.
            bind_e (AnalizeFrame_mol_str self counts) (\<lambda>s. Inr (AList.update s count d))) d
         = (case p of (counts, count) \<Rightarrow> \<lambda>d.
            bind_e (mol_str self counts) (\<lambda>s. Inr (AList.update s count d))) d"
        by (cases p) simp
    qed
    with Inr show ?thesis by (simp add: AnalizeFrame_count_mols_of_def count_mols_of_def)
  qed
  with assms(1) show ?thesis by (simp add: AnalizeFrame_count_mols_def count_mols_def)
qed

theorem count_mols_versions_agree_witness:
  "get_mols_list (fixed_search [] [[0, 1], [2]]) (sample_frame [2, 2, 1])
       ''cut_off'' (Some 1.5) None = Inr [[0, 1], [2]]
   \<and> count_mols (fixed_search [] [[0, 1], [2]]) (sample_frame [2, 2, 1])
       ''cut_off'' (Some 1.5) None = Inr [(''H2'', 1), (''O1'', 1)]
   \<and> AnalizeFrame_count_mols (fixed_search [] [[0, 1], [2]]) (sample_frame [2, 2, 1])
       ''cut_off'' (Some 1.5) None = Inr [(''H2'', 1), (''O1'', 1)]"
proof -
  let ?F = "sample_frame [2, 2, 1]"
  let ?M = "[[0, 1], [2 :: nat]]"
  have h1: "get_mols_list (fixed_search [] ?M) ?F ''cut_off'' (Some 1.5) None = Inr ?M"
    by (rule sample_get_mols_list)
  have h2: "\<forall>mol \<in> set ?M. \<exists>ty. \<forall>a \<in> set mol.
           a < length (atoms ?F) \<longrightarrow> atom_type (atoms ?F ! a) = ty"
    by (simp add: sample_frame_def sample_atom_def)
  have c: "atom_type_count ?F [0, 1] = Inr [0, 2]" "atom_type_count ?F [2] = Inr [1, 0]"
    by (simp_all add: atom_type_count_def sample_frame_def sample_atom_def dict_len_def
        list_get_def py_incr_def py_index_def numeral_2_eq_2)
  have s: "mol_str ?F [0, 2] = Inr ''H2''" "mol_str ?F [1, 0] = Inr ''O1''"
    by (simp_all add: mol_str_def sample_frame_def dict_len_def dict_get_def upt_rec_numeral
        str_nat.simps digit_char_def)
  have "mols_count_tmp ?F ?M = Inr [([0, 2], 1), ([1, 0], 1)]"
    by (simp add: mols_count_tmp_def c tally_def del: One_nat_def)
  then have "count_mols_of ?F ?M = Inr [(''H2'', 1), (''O1'', 1)]"
    by (simp add: count_mols_of_def mols_count_def s del: One_nat_def)
  then have new: "count_mols (fixed_search [] ?M) ?F ''cut_off'' (Some 1.5) None
                    = Inr [(''H2'', 1), (''O1'', 1)]"
    unfolding count_mols_def sample_get_mols_list by (simp only: bind_e_simps)
  from count_mols_versions_agree [OF h1 h2] new
  have "AnalizeFrame_count_mols (fixed_search [] ?M) ?F ''cut_off'' (Some 1.5) None
          = Inr [(''H2'', 1), (''O1'', 1)]"
    by (simp only:)
  with h1 new show ?thesis by (intro conjI)
qed

lemma sample_AnalizeFrame_mol_str:
  "AnalizeFrame_mol_str (sample_frame ts) [1, 2] = Inr ''O1 H2''"
  "AnalizeFrame_mol_str (sample_frame ts) [0, 1] = Inr ''H1''"
  by (simp_all add: AnalizeFrame_mol_str_def sample_frame_def dict_len_def dict_get_def
        upt_rec_numeral str_nat.simps digit_char_def)

text \<open>
  For a molecule of two types the keys differ: two water molecules and a lone hydrogen are
  \<open>O1H2\<close> twice and \<open>H1\<close> once in the new version, \<open>O1 H2\<close> twice and \<open>H1\<close> once in the
  old one.
\<close>

theorem count_mols_versions_differ:
  "count_mols (fixed_search [] [[0, 1, 2], [3, 4, 5], [6]])
       (sample_frame [1, 2, 2, 1, 2, 2, 2]) ''cut_off'' (Some 1.5) None
     = Inr [(''O1H2'', 2), (''H1'', 1)]
   \<and> AnalizeFrame_count_mols (fixed_search [] [[0, 1, 2], [3, 4, 5], [6]])
       (sample_frame [1, 2, 2, 1, 2, 2, 2]) ''cut_off'' (Some 1.5) None
     = Inr [(''O1 H2'', 2), (''H1'', 1)]
   \<and> AnalizeFrame_count_mols (fixed_search [] [[0, 1, 2], [3, 4, 5], [6]])
       (sample_frame [1, 2, 2, 1, 2, 2, 2]) ''cut_off'' (Some 1.5) None
     \<noteq> count_mols (fixed_search [] [[0, 1, 2], [3, 4, 5], [6]])
       (sample_frame [1, 2, 2, 1, 2, 2, 2]) ''cut_off'' (Some 1.5) None"
proof -
  let ?F = "sample_frame [1, 2, 2, 1, 2, 2, 2]"
  let ?M = "[[0, 1, 2], [3, 4, 5], [6 :: nat]]"
  have c: "atom_type_count ?F [0, 1, 2] = Inr [1, 2]"
    "atom_type_count ?F [3, 4, 5] = Inr [1, 2]"
    "atom_type_count ?F [6] = Inr [0, 1]"
    by (simp_all add: atom_type_count_def sample_frame_def sample_atom_def dict_len_def
        list_get_def py_incr_def py_index_def numeral_2_eq_2)
  have tmp: "mols_count_tmp ?F ?M = Inr [([1, 2], 2), ([0, 1], 1)]"
    by (simp add: mols_count_tmp_def c tally_def del: One_nat_def)
  have "count_mols_of ?F ?M = Inr [(''O1H2'', 2), (''H1'', 1)]"
    by (simp add: count_mols_of_def mols_count_def tmp sample_mol_str del: One_nat_def)
  then have new: "count_mols (fixed_search [] ?M) ?F ''cut_off'' (Some 1.5) None
                    = Inr [(''O1H2'', 2), (''H1'', 1)]"
    unfolding count_mols_def sample_get_mols_list by (simp only: bind_e_simps)
  have "AnalizeFrame_count_mols_of ?F ?M = Inr [(''O1 H2'', 2), (''H1'', 1)]"
    by (simp add: AnalizeFrame_count_mols_of_def mols_count_def tmp
        sample_AnalizeFrame_mol_str del: One_nat_def)
  then have old: "AnalizeFrame_count_mols (fixed_search [] ?M) ?F ''cut_off'' (Some 1.5) None
                    = Inr [(''O1 H2'', 2), (''H1'', 1)]"
    unfolding AnalizeFrame_count_mols_def sample_get_mols_list by (simp only: bind_e_simps)
  have "AnalizeFrame_count_mols (fixed_search [] ?M) ?F ''cut_off'' (Some 1.5) None
          \<noteq> count_mols (fixed_search [] ?M) ?F ''cut_off'' (Some 1.5) None"
    unfolding new old by simp
  with new old show ?thesis by (intro conjI)
qed

end
